theory Spec2Isabelle
  imports Main "HOL-Library.Sublist"
begin

section \<open>Values of the host language\<close>

text \<open>
  The front matter of a note is parsed YAML, so an entry can hold any JavaScript value.
  Numbers are modelled as mathematical integers plus \<open>NaN\<close> (exact for magnitudes below
  \<open>2 ^ 53\<close>; fractions and infinities are not represented). An array or a plain
  object is \<open>JObj s\<close>, where \<open>s\<close> is the text that \<open>String(...)\<close> gives for it; such a
  value is always truthy. A string is a list of code units, of which the 8-bit ones are
  represented.
\<close>

datatype jsval = JUndefined | JNull | JBool bool | JNum int | JNaN | JStr string | JObj string

text \<open>The truthiness test of \<open>if (entry)\<close>.\<close>

fun truthy :: "jsval \<Rightarrow> bool" where
  "truthy JUndefined = False"
| "truthy JNull = False"
| "truthy (JBool b) = b"
| "truthy (JNum n) = (n \<noteq> 0)"
| "truthy JNaN = False"
| "truthy (JStr s) = (s \<noteq> [])"
| "truthy (JObj s) = True"

text \<open>The nullish coalescing operator \<open>a ?? b\<close>.\<close>

fun nullish :: "jsval \<Rightarrow> bool" where
  "nullish JUndefined = True"
| "nullish JNull = True"
| "nullish v = False"

definition coalesce :: "jsval \<Rightarrow> jsval \<Rightarrow> jsval" where
  "coalesce a b = (if nullish a then b else a)"

subsection \<open>Strings\<close>

definition digitChar :: "nat \<Rightarrow> char" where
  "digitChar d = ''0123456789'' ! d"

fun natToString :: "nat \<Rightarrow> string" where
  "natToString n = (if n < 10 then [digitChar n] else natToString (n div 10) @ [digitChar (n mod 10)])"

declare natToString.simps [simp del]

definition intToString :: "int \<Rightarrow> string" where
  "intToString i = (if i < 0 then CHR ''-'' # natToString (nat (- i)) else natToString (nat i))"

text \<open>\<open>String(v)\<close>, also what a template literal does with an interpolated value.\<close>

fun toString :: "jsval \<Rightarrow> string" where
  "toString JUndefined = ''undefined''"
| "toString JNull = ''null''"
| "toString (JBool b) = (if b then ''true'' else ''false'')"
| "toString (JNum n) = intToString n"
| "toString JNaN = ''NaN''"
| "toString (JStr s) = s"
| "toString (JObj s) = s"

text \<open>White space and line terminators, as \<open>trim\<close> and \<open>parseInt\<close> strip them.\<close>

definition isWhiteSpace :: "char \<Rightarrow> bool" where
  "isWhiteSpace c = (c \<in> {CHR 0x09, CHR 0x0A, CHR 0x0B, CHR 0x0C, CHR 0x0D, CHR 0x20, CHR 0xA0})"

definition trim :: "string \<Rightarrow> string" where
  "trim s = rev (dropWhile isWhiteSpace (rev (dropWhile isWhiteSpace s)))"

text \<open>\<open>s.split(sep)\<close> for a one-character separator: never empty, \<open>''''.split(sep) = ['''']\<close>.\<close>

fun split :: "char \<Rightarrow> string \<Rightarrow> string list" where
  "split sep [] = [[]]"
| "split sep (c # cs) =
     (if c = sep then [] # split sep cs
      else (let r = split sep cs in (c # hd r) # tl r))"

definition startsWith :: "string \<Rightarrow> string \<Rightarrow> bool" where
  "startsWith s search = prefix search s"

text \<open>\<open>s.substring(k)\<close> is \<open>drop k s\<close>; \<open>s.substring(0, k)\<close> is \<open>take k s\<close>.\<close>

definition substring :: "string \<Rightarrow> nat \<Rightarrow> string" where
  "substring s k = drop k s"

text \<open>
  The value of a digit in any radix up to 36; 36 for a character that is no digit.
\<close>

definition digitValue :: "char \<Rightarrow> nat" where
  "digitValue c =
     (let k = (of_char c :: nat) in
      if 48 \<le> k \<and> k \<le> 57 then k - 48
      else if 97 \<le> k \<and> k \<le> 122 then k - 87
      else if 65 \<le> k \<and> k \<le> 90 then k - 55
      else 36)"

definition digitsValue :: "nat \<Rightarrow> string \<Rightarrow> nat" where
  "digitsValue radix z = foldl (\<lambda>acc c. acc * radix + digitValue c) 0 z"

text \<open>
  \<open>parseInt(s)\<close> with no radix: leading white space is skipped, a sign is read, the
  prefix \<open>0x\<close> or \<open>0X\<close> switches to radix 16, and the longest run of digits is the
  value; no digit gives \<open>NaN\<close>.
\<close>

definition parseInt :: "string \<Rightarrow> jsval" where
  "parseInt inputString =
     (let s0 = dropWhile isWhiteSpace inputString;
          negative = (s0 \<noteq> [] \<and> hd s0 = CHR ''-'');
          s1 = (if s0 \<noteq> [] \<and> (hd s0 = CHR ''-'' \<or> hd s0 = CHR ''+'') then tl s0 else s0);
          hex = (startsWith s1 ''0x'' \<or> startsWith s1 ''0X'');
          radix = (if hex then 16 else 10);
          s2 = (if hex then drop 2 s1 else s1);
          z = takeWhile (\<lambda>c. digitValue c < radix) s2
      in if z = [] then JNaN
         else JNum ((if negative then - 1 else 1) * int (digitsValue radix z)))"

section \<open>The settings record and its validity predicates\<close>

text \<open>
  The flags and the levels are kept as raw values: the legacy decoder stores whatever
  entry the validity predicate accepted. The other four fields only ever receive strings.
\<close>

record NumberHeadingsPluginSettings =
  skipTopLevel :: jsval
  firstLevel :: jsval
  maxLevel :: jsval
  styleLevel1 :: string
  styleLevelOther :: string
  auto :: jsval
  separator :: string
  contents :: string

text \<open>
  The module \<open>settingsTypes\<close> is imported by \<open>frontMatter.ts\<close>, and taken here as a
  parameter: the default settings record and the five validity predicates.
\<close>

record settingsTypes =
  DEFAULT_SETTINGS :: NumberHeadingsPluginSettings
  isValidContents :: "string \<Rightarrow> bool"
  isValidFirstOrMaxLevel :: "jsval \<Rightarrow> bool"
  isValidFlag :: "jsval \<Rightarrow> bool"
  isValidLevelStyle :: "string \<Rightarrow> bool"
  isValidSeparator :: "string \<Rightarrow> bool"

section \<open>Front matter\<close>

text \<open>
  A \<open>FrontMatterCache\<close>: the entries of the metadata block and the line where the block
  starts. \<open>CachedMetadata.frontmatter\<close> is \<open>undefined\<close> (here \<open>None\<close>) when the note has
  no metadata block.
\<close>

record FrontMatterCache =
  entries :: "string \<rightharpoonup> jsval"
  startLine :: nat

text \<open>
  The host's lookup \<open>parseFrontMatterEntry(fm, key)\<close>: the raw value of the entry, or
  \<open>null\<close> when there is none.
\<close>

definition parseFrontMatterEntry :: "FrontMatterCache \<Rightarrow> string \<Rightarrow> jsval" where
  "parseFrontMatterEntry fm key = (case entries fm key of None \<Rightarrow> JNull | Some v \<Rightarrow> v)"

text \<open>The property read \<open>frontmatter[key]\<close>: \<open>undefined\<close> when there is none.\<close>

definition property :: "FrontMatterCache \<Rightarrow> string \<Rightarrow> jsval" where
  "property fm key = (case entries fm key of None \<Rightarrow> JUndefined | Some v \<Rightarrow> v)"

section \<open>The compact decoder\<close>

definition AUTO_PART_KEY :: string where "AUTO_PART_KEY = ''auto''"
definition FIRST_LEVEL_PART_KEY :: string where "FIRST_LEVEL_PART_KEY = ''first-level''"
definition MAX_LEVEL_PART_KEY :: string where "MAX_LEVEL_PART_KEY = ''max''"
definition CONTENTS_PART_KEY :: string where "CONTENTS_PART_KEY = ''contents''"

text \<open>The four branches of the loop body that parse a value, each on the trimmed part.\<close>

definition parseFirstLevelPart ::
  "settingsTypes \<Rightarrow> NumberHeadingsPluginSettings \<Rightarrow> string \<Rightarrow> NumberHeadingsPluginSettings" where
  "parseFirstLevelPart env settings cleanPart =
     (let nstring = substring cleanPart (length FIRST_LEVEL_PART_KEY + 1);
          n = parseInt nstring
      in if isValidFirstOrMaxLevel env n then settings\<lparr>firstLevel := n\<rparr> else settings)"

definition parseMaxLevelPart ::
  "settingsTypes \<Rightarrow> NumberHeadingsPluginSettings \<Rightarrow> string \<Rightarrow> NumberHeadingsPluginSettings" where
  "parseMaxLevelPart env settings cleanPart =
     (let nstring = substring cleanPart (length MAX_LEVEL_PART_KEY + 1);
          n = parseInt nstring
      in if isValidFirstOrMaxLevel env n then settings\<lparr>maxLevel := n\<rparr> else settings)"

definition parseContentsPart ::
  "settingsTypes \<Rightarrow> NumberHeadingsPluginSettings \<Rightarrow> string \<Rightarrow> NumberHeadingsPluginSettings" where
  "parseContentsPart env settings cleanPart =
     (if length cleanPart \<le> length CONTENTS_PART_KEY + 1 then settings
      else (let tocHeading = substring cleanPart (length CONTENTS_PART_KEY + 1)
            in if isValidContents env tocHeading then settings\<lparr>contents := tocHeading\<rparr>
               else settings))"

definition parseFormattingPart ::
  "settingsTypes \<Rightarrow> NumberHeadingsPluginSettings \<Rightarrow> string \<Rightarrow> NumberHeadingsPluginSettings" where
  "parseFormattingPart env settings cleanPart =
     (let lastChar = [last cleanPart];
          validSep = isValidSeparator env lastChar;
          settings1 = (if validSep then settings\<lparr>separator := lastChar\<rparr> else settings);
          remainingPart = (if validSep then take (length cleanPart - 1) cleanPart else cleanPart);
          descriptors = split (CHR ''.'') remainingPart;
          skip = (length descriptors > 1 \<and> descriptors ! 0 = ''_'');
          firstNumberedDescriptor = (if skip then 1 else 0);
          settings2 = settings1\<lparr>skipTopLevel := JBool skip\<rparr>
      in if length descriptors \<ge> firstNumberedDescriptor + 2 then
           (let styleLevel1' = descriptors ! firstNumberedDescriptor;
                settings3 = (if isValidLevelStyle env styleLevel1'
                             then settings2\<lparr>styleLevel1 := styleLevel1'\<rparr> else settings2);
                styleLevelOther' = descriptors ! (firstNumberedDescriptor + 1)
            in if isValidLevelStyle env styleLevelOther'
               then settings3\<lparr>styleLevelOther := styleLevelOther'\<rparr> else settings3)
         else settings2)"

text \<open>The chain of tests on a trimmed, non-empty part, in the order of the source.\<close>

definition parsePart ::
  "settingsTypes \<Rightarrow> NumberHeadingsPluginSettings \<Rightarrow> string \<Rightarrow> NumberHeadingsPluginSettings" where
  "parsePart env settings cleanPart =
     (if cleanPart = AUTO_PART_KEY then settings\<lparr>auto := JBool True\<rparr>
      else if startsWith cleanPart FIRST_LEVEL_PART_KEY then parseFirstLevelPart env settings cleanPart
      else if startsWith cleanPart MAX_LEVEL_PART_KEY then parseMaxLevelPart env settings cleanPart
      else if startsWith cleanPart CONTENTS_PART_KEY then parseContentsPart env settings cleanPart
      else parseFormattingPart env settings cleanPart)"

text \<open>One turn of the loop over the parts: trim, skip an empty part, parse.\<close>

definition loopBody ::
  "settingsTypes \<Rightarrow> NumberHeadingsPluginSettings \<Rightarrow> string \<Rightarrow> NumberHeadingsPluginSettings" where
  "loopBody env settings part =
     (let cleanPart = trim part
      in if length cleanPart = 0 then settings else parsePart env settings cleanPart)"

definition parseParts ::
  "settingsTypes \<Rightarrow> NumberHeadingsPluginSettings \<Rightarrow> string list \<Rightarrow> NumberHeadingsPluginSettings" where
  "parseParts env settings parts = foldl (loopBody env) settings parts"

text \<open>The decoder on the entry's text, starting from a copy of the defaults.\<close>

definition parseCompactString :: "settingsTypes \<Rightarrow> string \<Rightarrow> NumberHeadingsPluginSettings" where
  "parseCompactString env entryString =
     parseParts env (DEFAULT_SETTINGS env) (split (CHR '','') entryString)"

definition parseCompactFrontMatterSettings ::
  "settingsTypes \<Rightarrow> FrontMatterCache \<Rightarrow> NumberHeadingsPluginSettings option" where
  "parseCompactFrontMatterSettings env fm =
     (let entry = parseFrontMatterEntry fm ''number headings''
      in if truthy entry then Some (parseCompactString env (toString entry)) else None)"

section \<open>The legacy decoder\<close>

text \<open>Lines 89 to 110 of the source: the per-key path, kept for older notes.\<close>

definition legacyFrontMatterSettings ::
  "settingsTypes \<Rightarrow> FrontMatterCache \<Rightarrow> NumberHeadingsPluginSettings \<Rightarrow> NumberHeadingsPluginSettings" where
  "legacyFrontMatterSettings env frontmatter alternativeSettings =
     (let skipTopLevelEntry = coalesce (parseFrontMatterEntry frontmatter ''number-headings-skip-top-level'')
                                       (parseFrontMatterEntry frontmatter ''header-numbering-skip-top-level'');
          skipTopLevel' = (if isValidFlag env skipTopLevelEntry then skipTopLevelEntry
                           else skipTopLevel alternativeSettings);
          maxLevelEntry = coalesce (parseFrontMatterEntry frontmatter ''number-headings-max-level'')
                                   (parseFrontMatterEntry frontmatter ''header-numbering-max-level'');
          maxLevel' = (if isValidFirstOrMaxLevel env maxLevelEntry then maxLevelEntry
                       else maxLevel alternativeSettings);
          styleLevel1Entry = toString (coalesce (parseFrontMatterEntry frontmatter ''number-headings-style-level-1'')
                                                (parseFrontMatterEntry frontmatter ''header-numbering-style-level-1''));
          styleLevel1' = (if isValidLevelStyle env styleLevel1Entry then styleLevel1Entry
                          else styleLevel1 alternativeSettings);
          styleLevelOtherEntry = toString (coalesce (parseFrontMatterEntry frontmatter ''number-headings-style-level-other'')
                                                    (parseFrontMatterEntry frontmatter ''header-numbering-style-level-other''));
          styleLevelOther' = (if isValidLevelStyle env styleLevelOtherEntry then styleLevelOtherEntry
                              else styleLevelOther alternativeSettings);
          autoEntry = coalesce (parseFrontMatterEntry frontmatter ''number-headings-auto'')
                               (parseFrontMatterEntry frontmatter ''header-numbering-auto'');
          auto' = (if isValidFlag env autoEntry then autoEntry else auto alternativeSettings)
      in (DEFAULT_SETTINGS env)\<lparr>skipTopLevel := skipTopLevel', maxLevel := maxLevel',
            styleLevel1 := styleLevel1', styleLevelOther := styleLevelOther', auto := auto'\<rparr>)"

definition getFrontMatterSettingsOrAlternative ::
  "settingsTypes \<Rightarrow> FrontMatterCache option \<Rightarrow> NumberHeadingsPluginSettings \<Rightarrow> NumberHeadingsPluginSettings" where
  "getFrontMatterSettingsOrAlternative env frontmatter alternativeSettings =
     (case frontmatter of
        Some fm \<Rightarrow>
          (case parseCompactFrontMatterSettings env fm of
             Some decompactedSettings \<Rightarrow> decompactedSettings
           | None \<Rightarrow> legacyFrontMatterSettings env fm alternativeSettings)
      | None \<Rightarrow> alternativeSettings)"

section \<open>The encoder\<close>

definition settingsToCompactFrontMatterValue :: "NumberHeadingsPluginSettings \<Rightarrow> string" where
  "settingsToCompactFrontMatterValue settings =
     (let autoPart = (if truthy (auto settings) then ''auto, '' else '''');
          firstLevelPart = ''first-level '' @ toString (firstLevel settings) @ '', '';
          maxPart = ''max '' @ toString (maxLevel settings) @ '', '';
          contentsPart = (if contents settings \<noteq> [] \<and> length (contents settings) > 0
                          then ''contents '' @ contents settings @ '', '' else '''');
          skipTopLevelString = (if truthy (skipTopLevel settings) then ''_.'' else '''');
          stylePart = skipTopLevelString @ styleLevel1 settings @ ''.'' @ styleLevelOther settings
                        @ separator settings
      in autoPart @ firstLevelPart @ maxPart @ contentsPart @ stylePart)"

section \<open>The document and the splice\<close>

text \<open>
  The host's editor, by its contract: the buffer is the list of its lines, none of which
  holds a line break, and it always has at least one line. \<open>getLine\<close> is only called
  below the last line here, so no read is out of range.
\<close>

type_synonym Editor = "string list"

record EditorPosition =
  line :: nat
  ch :: nat

definition wellFormedEditor :: "Editor \<Rightarrow> bool" where
  "wellFormedEditor editor = (editor \<noteq> [] \<and> (\<forall>l \<in> set editor. CHR 0x0A \<notin> set l))"

definition lastLine :: "Editor \<Rightarrow> nat" where
  "lastLine editor = length editor - 1"

definition getLine :: "Editor \<Rightarrow> nat \<Rightarrow> string" where
  "getLine editor i = editor ! i"

text \<open>A position past the end of the buffer, or of its line, is clipped to the end.\<close>

definition clipPos :: "Editor \<Rightarrow> EditorPosition \<Rightarrow> EditorPosition" where
  "clipPos editor pos =
     (if line pos > lastLine editor
      then \<lparr>line = lastLine editor, ch = length (getLine editor (lastLine editor))\<rparr>
      else \<lparr>line = line pos, ch = min (ch pos) (length (getLine editor (line pos)))\<rparr>)"

text \<open>
  \<open>replaceRange(text, from, to)\<close>, for \<open>from\<close> not after \<open>to\<close>: the lines before \<open>from\<close>,
  then the head of the first line, the new text and the rest of the last line, cut again
  at the line breaks, then the lines after \<open>to\<close>.
\<close>

definition replaceRange :: "string \<Rightarrow> EditorPosition \<Rightarrow> EditorPosition \<Rightarrow> Editor \<Rightarrow> Editor" where
  "replaceRange text from to editor =
     (let f = clipPos editor from; t = clipPos editor to
      in take (line f) editor
         @ split (CHR 0x0A) (take (ch f) (getLine editor (line f)) @ text @ drop (ch t) (getLine editor (line t)))
         @ drop (Suc (line t)) editor)"

text \<open>The scan \<open>for (let i = afterLine; i < editor.lastLine(); i++)\<close>, on its loop variable.\<close>

function findLineWhichStartsWith :: "Editor \<Rightarrow> string \<Rightarrow> nat \<Rightarrow> nat option" where
  "findLineWhichStartsWith editor search i =
     (if i < lastLine editor
      then (if startsWith (getLine editor i) search then Some i
            else findLineWhichStartsWith editor search (Suc i))
      else None)"
  by pat_completeness auto
termination
  by (relation "measure (\<lambda>(editor, search, i). lastLine editor - i)") auto

declare findLineWhichStartsWith.simps [simp del]

datatype error = Error string

definition keyNotFoundMessage :: string where
  "keyNotFoundMessage =
     ''Number Headings Plugin: '' @ [CHR 0x22] @ ''number headings'' @ [CHR 0x22] @ '' key exists but not found.''"

text \<open>
  The splice returns the buffer as the call leaves it, and the error when it throws.
\<close>

definition saveSettingsToFrontMatter ::
  "FrontMatterCache option \<Rightarrow> Editor \<Rightarrow> NumberHeadingsPluginSettings \<Rightarrow> error option \<times> Editor" where
  "saveSettingsToFrontMatter frontmatter editor settings =
     (case frontmatter of
        Some fm \<Rightarrow>
          (let frontMatterLine = startLine fm;
               v = settingsToCompactFrontMatterValue settings;
               frontMatterAdditions = ''number headings: '' @ v @ [CHR 0x0A]
           in if property fm ''number headings'' \<noteq> JUndefined then
                (case findLineWhichStartsWith editor ''number headings'' frontMatterLine of
                   None \<Rightarrow> (Some (Error keyNotFoundMessage), editor)
                 | Some keyLine \<Rightarrow>
                     (None, replaceRange frontMatterAdditions
                              \<lparr>line = keyLine, ch = 0\<rparr> \<lparr>line = keyLine + 1, ch = 0\<rparr> editor))
              else (None, replaceRange frontMatterAdditions
                            \<lparr>line = frontMatterLine + 1, ch = 0\<rparr>
                            \<lparr>line = frontMatterLine + 1, ch = 0\<rparr> editor))
      | None \<Rightarrow>
          (let v = settingsToCompactFrontMatterValue settings;
               newFrontMatter = ''---'' @ [CHR 0x0A] @ ''number headings: '' @ v @ [CHR 0x0A]
                                  @ ''---'' @ [CHR 0x0A, CHR 0x0A]
           in (None, replaceRange newFrontMatter \<lparr>line = 0, ch = 0\<rparr> \<lparr>line = 0, ch = 0\<rparr> editor)))"

section \<open>An instance of the validity predicates\<close>

text \<open>
  One choice of defaults and predicates, on which the theorems below are evaluated:
  levels from 1 to 6, the styles \<open>1\<close>, \<open>A\<close>, \<open>a\<close>, \<open>I\<close>, \<open>i\<close>, the separators \<open>:\<close>, \<open>.\<close>,
  \<open>-\<close>, \<open>)\<close> and the empty one, a flag any boolean, contents any text.
\<close>

definition sampleDefaults :: NumberHeadingsPluginSettings where
  "sampleDefaults =
     \<lparr>skipTopLevel = JBool False, firstLevel = JNum 1, maxLevel = JNum 6,
      styleLevel1 = ''1'', styleLevelOther = ''1'', auto = JBool False,
      separator = '''', contents = ''''\<rparr>"

definition sampleTypes :: settingsTypes where
  "sampleTypes =
     \<lparr>DEFAULT_SETTINGS = sampleDefaults,
      isValidContents = (\<lambda>x. True),
      isValidFirstOrMaxLevel = (\<lambda>x. case x of JNum n \<Rightarrow> 1 \<le> n \<and> n \<le> 6 | _ \<Rightarrow> False),
      isValidFlag = (\<lambda>f. case f of JBool b \<Rightarrow> True | _ \<Rightarrow> False),
      isValidLevelStyle = (\<lambda>s. s = ''A'' \<or> s = ''a'' \<or> s = ''1'' \<or> s = ''I'' \<or> s = ''i''),
      isValidSeparator = (\<lambda>x. x = '''' \<or> x = '':'' \<or> x = ''.'' \<or> x = ''-'' \<or> x = '')'')\<rparr>"

section \<open>Notions used in the statements\<close>

text \<open>
  A part reaches the formatting branch when it is none of the four recognised tokens.
\<close>

definition isFormattingPart :: "string \<Rightarrow> bool" where
  "isFormattingPart cleanPart =
     (cleanPart \<noteq> AUTO_PART_KEY \<and> \<not> startsWith cleanPart FIRST_LEVEL_PART_KEY
      \<and> \<not> startsWith cleanPart MAX_LEVEL_PART_KEY \<and> \<not> startsWith cleanPart CONTENTS_PART_KEY)"

text \<open>
  What the formatting branch computes on the way: the segments of the part once a valid
  separator is cut off, the index of the first numbered segment, and the style that the
  segment \<open>k\<close> places after that index contributes, if any.
\<close>

definition formattingDescriptors :: "settingsTypes \<Rightarrow> string \<Rightarrow> string list" where
  "formattingDescriptors env cleanPart =
     split (CHR ''.'')
       (if isValidSeparator env [last cleanPart] then take (length cleanPart - 1) cleanPart
        else cleanPart)"

definition firstNumberedDescriptor :: "settingsTypes \<Rightarrow> string \<Rightarrow> nat" where
  "firstNumberedDescriptor env cleanPart =
     (let descriptors = formattingDescriptors env cleanPart
      in if length descriptors > 1 \<and> descriptors ! 0 = ''_'' then 1 else 0)"

definition descriptorStyle :: "settingsTypes \<Rightarrow> string \<Rightarrow> nat \<Rightarrow> string option" where
  "descriptorStyle env cleanPart k =
     (let descriptors = formattingDescriptors env cleanPart;
          i = firstNumberedDescriptor env cleanPart
      in if length descriptors \<ge> i + 2 \<and> isValidLevelStyle env (descriptors ! (i + k))
         then Some (descriptors ! (i + k)) else None)"

text \<open>Two metadata blocks: one whose compact entry is empty, one whose entry has a value.\<close>

definition emptyValueFrontMatter :: FrontMatterCache where
  "emptyValueFrontMatter =
     \<lparr>entries = [''number headings'' \<mapsto> JStr '''', ''number-headings-auto'' \<mapsto> JBool True],
      startLine = 0\<rparr>"

definition compactFrontMatter :: FrontMatterCache where
  "compactFrontMatter =
     \<lparr>entries = [''number headings'' \<mapsto> JStr ''max 3'', ''number-headings-auto'' \<mapsto> JBool True],
      startLine = 0\<rparr>"

text \<open>
  The entry the legacy decoder reads for a pair of keys, as the operator \<open>??\<close> gives it:
  the value under the preferred key, unless that key is absent or its value is \<open>null\<close> or
  \<open>undefined\<close>; then the value under the deprecated alias, and \<open>null\<close> when the alias is
  absent too.
\<close>

definition legacyEntry :: "FrontMatterCache \<Rightarrow> string \<Rightarrow> string \<Rightarrow> jsval" where
  "legacyEntry fm preferred deprecated =
     (let alias = (case entries fm deprecated of None \<Rightarrow> JNull | Some w \<Rightarrow> w)
      in case entries fm preferred of
           None \<Rightarrow> alias
         | Some v \<Rightarrow> if v = JNull \<or> v = JUndefined then alias else v)"

text \<open>A block with legacy keys only, and an alternative that differs from the defaults.\<close>

definition legacyFrontMatter :: FrontMatterCache where
  "legacyFrontMatter =
     \<lparr>entries = [''header-numbering-max-level'' \<mapsto> JNum 3,
                 ''number-headings-auto'' \<mapsto> JStr ''yes'',
                 ''number-headings-style-level-1'' \<mapsto> JStr ''A'',
                 ''header-numbering-style-level-1'' \<mapsto> JStr ''i''],
      startLine = 0\<rparr>"

definition legacyAlternative :: NumberHeadingsPluginSettings where
  "legacyAlternative =
     \<lparr>skipTopLevel = JBool True, firstLevel = JNum 2, maxLevel = JNum 5,
      styleLevel1 = ''a'', styleLevelOther = ''I'', auto = JBool True,
      separator = ''-'', contents = ''toc''\<rparr>"

text \<open>A block whose preferred key for \<open>auto\<close> is present with no value, and whose alias is set.\<close>

definition nullPreferredFrontMatter :: FrontMatterCache where
  "nullPreferredFrontMatter =
     \<lparr>entries = [''number-headings-auto'' \<mapsto> JNull, ''header-numbering-auto'' \<mapsto> JBool True],
      startLine = 0\<rparr>"

text \<open>
  The parts that the decoder's loop parses: the pieces between commas, trimmed, the
  empty ones dropped.
\<close>

definition cleanParts :: "string \<Rightarrow> string list" where
  "cleanParts entryString =
     filter (\<lambda>cleanPart. length cleanPart \<noteq> 0) (map trim (split (CHR '','') entryString))"

text \<open>
  When a part sets a field: it reaches the branch of that field, and the value it
  carries passes the check of that branch.
\<close>

definition setsAuto :: "string \<Rightarrow> bool" where
  "setsAuto cleanPart = (cleanPart = AUTO_PART_KEY)"

definition setsFirstLevel :: "settingsTypes \<Rightarrow> string \<Rightarrow> bool" where
  "setsFirstLevel env cleanPart =
     (cleanPart \<noteq> AUTO_PART_KEY \<and> startsWith cleanPart FIRST_LEVEL_PART_KEY
      \<and> isValidFirstOrMaxLevel env
            (parseInt (substring cleanPart (length FIRST_LEVEL_PART_KEY + 1))))"

definition setsMaxLevel :: "settingsTypes \<Rightarrow> string \<Rightarrow> bool" where
  "setsMaxLevel env cleanPart =
     (cleanPart \<noteq> AUTO_PART_KEY \<and> \<not> startsWith cleanPart FIRST_LEVEL_PART_KEY
      \<and> startsWith cleanPart MAX_LEVEL_PART_KEY
      \<and> isValidFirstOrMaxLevel env
            (parseInt (substring cleanPart (length MAX_LEVEL_PART_KEY + 1))))"

definition setsContents :: "settingsTypes \<Rightarrow> string \<Rightarrow> bool" where
  "setsContents env cleanPart =
     (cleanPart \<noteq> AUTO_PART_KEY \<and> \<not> startsWith cleanPart FIRST_LEVEL_PART_KEY
      \<and> \<not> startsWith cleanPart MAX_LEVEL_PART_KEY \<and> startsWith cleanPart CONTENTS_PART_KEY
      \<and> length cleanPart > length CONTENTS_PART_KEY + 1
      \<and> isValidContents env (substring cleanPart (length CONTENTS_PART_KEY + 1)))"

definition setsSeparator :: "settingsTypes \<Rightarrow> string \<Rightarrow> bool" where
  "setsSeparator env cleanPart =
     (isFormattingPart cleanPart \<and> isValidSeparator env [last cleanPart])"

definition setsStyleLevel1 :: "settingsTypes \<Rightarrow> string \<Rightarrow> bool" where
  "setsStyleLevel1 env cleanPart =
     (isFormattingPart cleanPart \<and> descriptorStyle env cleanPart 0 \<noteq> None)"

definition setsStyleLevelOther :: "settingsTypes \<Rightarrow> string \<Rightarrow> bool" where
  "setsStyleLevelOther env cleanPart =
     (isFormattingPart cleanPart \<and> descriptorStyle env cleanPart 1 \<noteq> None)"

text \<open>A block whose compact entry mentions two of the tokens.\<close>

definition subsetFrontMatter :: FrontMatterCache where
  "subsetFrontMatter = \<lparr>entries = [''number headings'' \<mapsto> JStr ''auto, max 3''], startLine = 0\<rparr>"

text \<open>The characters of a decimal numeral.\<close>

definition decimalDigits :: "char set" where
  "decimalDigits = set ''0123456789''"

text \<open>
  The conditions under which the encoder's text can be read back. A level style that
  the formatting tail can carry: not empty, not \<open>_\<close>, free of dots, commas and white
  space, not ending in a valid separator, not beginning with a key word. A separator
  that a part can end with: one character, valid, no comma and no white space. Contents
  that a part can carry: no comma, no white space at the end. A level in the range where
  numbers are exact integers. A flag that is a boolean.
\<close>

definition plainStyle :: "settingsTypes \<Rightarrow> string \<Rightarrow> bool" where
  "plainStyle env s =
     (s \<noteq> [] \<and> s \<noteq> ''_'' \<and> CHR ''.'' \<notin> set s \<and> CHR '','' \<notin> set s
      \<and> (\<forall>c \<in> set s. \<not> isWhiteSpace c) \<and> \<not> isValidSeparator env [last s]
      \<and> \<not> startsWith s FIRST_LEVEL_PART_KEY \<and> \<not> startsWith s MAX_LEVEL_PART_KEY
      \<and> \<not> startsWith s CONTENTS_PART_KEY)"

definition plainSeparator :: "settingsTypes \<Rightarrow> string \<Rightarrow> bool" where
  "plainSeparator env s =
     (length s = 1 \<and> isValidSeparator env s \<and> hd s \<noteq> CHR '','' \<and> \<not> isWhiteSpace (hd s))"

definition plainContents :: "string \<Rightarrow> bool" where
  "plainContents s = (CHR '','' \<notin> set s \<and> (s = [] \<or> \<not> isWhiteSpace (last s)))"

definition safeLevel :: "jsval \<Rightarrow> bool" where
  "safeLevel v = (case v of JNum n \<Rightarrow> \<bar>n\<bar> < 2 ^ 53 | _ \<Rightarrow> False)"

definition isFlag :: "jsval \<Rightarrow> bool" where
  "isFlag v = (case v of JBool b \<Rightarrow> True | _ \<Rightarrow> False)"

text \<open>
  The validity predicates and the defaults fit the compact format: a valid style is
  plain, a valid level is a safe integer, and the default record is well typed, with
  plain styles, plain contents and a separator that is empty or plain.
\<close>

definition roundTripTypes :: "settingsTypes \<Rightarrow> bool" where
  "roundTripTypes env =
     ((\<forall>s. isValidLevelStyle env s \<longrightarrow> plainStyle env s)
      \<and> (\<forall>v. isValidFirstOrMaxLevel env v \<longrightarrow> safeLevel v)
      \<and> isFlag (auto (DEFAULT_SETTINGS env)) \<and> isFlag (skipTopLevel (DEFAULT_SETTINGS env))
      \<and> safeLevel (firstLevel (DEFAULT_SETTINGS env)) \<and> safeLevel (maxLevel (DEFAULT_SETTINGS env))
      \<and> plainStyle env (styleLevel1 (DEFAULT_SETTINGS env))
      \<and> plainStyle env (styleLevelOther (DEFAULT_SETTINGS env))
      \<and> (separator (DEFAULT_SETTINGS env) = [] \<or> plainSeparator env (separator (DEFAULT_SETTINGS env)))
      \<and> plainContents (contents (DEFAULT_SETTINGS env)))"

text \<open>What holds of every record that the decoder's loop has built from the defaults.\<close>

definition decoded :: "settingsTypes \<Rightarrow> NumberHeadingsPluginSettings \<Rightarrow> bool" where
  "decoded env r =
     ((auto r = JBool True \<or> auto r = auto (DEFAULT_SETTINGS env))
      \<and> (isValidFirstOrMaxLevel env (firstLevel r) \<or> firstLevel r = firstLevel (DEFAULT_SETTINGS env))
      \<and> (isValidFirstOrMaxLevel env (maxLevel r) \<or> maxLevel r = maxLevel (DEFAULT_SETTINGS env))
      \<and> plainContents (contents r)
      \<and> (contents r \<noteq> [] \<and> isValidContents env (contents r)
            \<or> contents r = contents (DEFAULT_SETTINGS env))
      \<and> isFlag (skipTopLevel r)
      \<and> (isValidLevelStyle env (styleLevel1 r) \<or> styleLevel1 r = styleLevel1 (DEFAULT_SETTINGS env))
      \<and> (isValidLevelStyle env (styleLevelOther r)
            \<or> styleLevelOther r = styleLevelOther (DEFAULT_SETTINGS env))
      \<and> (plainSeparator env (separator r) \<or> separator r = separator (DEFAULT_SETTINGS env)))"

text \<open>A part as the loop sees it: not empty, no comma, no white space at either end.\<close>

definition isCleanPart :: "string \<Rightarrow> bool" where
  "isCleanPart p =
     (p \<noteq> [] \<and> CHR '','' \<notin> set p \<and> \<not> isWhiteSpace (hd p) \<and> \<not> isWhiteSpace (last p))"

text \<open>Parts joined the way the encoder joins them, by a comma and a space.\<close>

fun joinParts :: "string list \<Rightarrow> string" where
  "joinParts [] = []"
| "joinParts [p] = p"
| "joinParts (p # q # ps) = p @ '', '' @ joinParts (q # ps)"

text \<open>The formatting tail that the encoder writes, on its four ingredients.\<close>

definition stylePart :: "bool \<Rightarrow> string \<Rightarrow> string \<Rightarrow> string \<Rightarrow> string" where
  "stylePart skip s1 s2 sep = (if skip then ''_.'' else '''') @ s1 @ ''.'' @ s2 @ sep"

text \<open>A compact entry, and the entry that the encoder writes for what it decodes to.\<close>

definition firstFrontMatter :: FrontMatterCache where
  "firstFrontMatter =
     \<lparr>entries = [''number headings'' \<mapsto> JStr ''auto,first-level 0x2 ,contents toc, _.A.a:''],
      startLine = 0\<rparr>"

definition secondFrontMatter :: FrontMatterCache where
  "secondFrontMatter =
     \<lparr>entries = [''number headings'' \<mapsto> JStr ''auto, first-level 2, max 6, contents toc, _.A.a:''],
      startLine = 0\<rparr>"

definition firstDecoded :: NumberHeadingsPluginSettings where
  "firstDecoded =
     \<lparr>skipTopLevel = JBool True, firstLevel = JNum 2, maxLevel = JNum 6,
      styleLevel1 = ''A'', styleLevelOther = ''a'', auto = JBool True,
      separator = '':'', contents = ''toc''\<rparr>"

text \<open>
  For the splice: a block that defines the key next to another key whose name begins
  with the same text, a key line written with the key in quotes, and settings whose
  contents hold a line break.
\<close>

definition otherKeyFrontMatter :: FrontMatterCache where
  "otherKeyFrontMatter =
     \<lparr>entries = [''number headings extra'' \<mapsto> JNum 1, ''number headings'' \<mapsto> JStr ''max 3''],
      startLine = 0\<rparr>"

definition quotedKeyLine :: string where
  "quotedKeyLine = [CHR 0x22] @ ''number headings'' @ [CHR 0x22] @ '': max 3''"

definition twoLineSettings :: NumberHeadingsPluginSettings where
  "twoLineSettings = sampleDefaults\<lparr>contents := ''a'' @ [CHR 0x0A] @ ''b''\<rparr>"

section \<open>Evaluation rules\<close>

lemmas part_defs = parsePart_def AUTO_PART_KEY_def FIRST_LEVEL_PART_KEY_def
  MAX_LEVEL_PART_KEY_def CONTENTS_PART_KEY_def startsWith_def parseFirstLevelPart_def
  parseMaxLevelPart_def parseContentsPart_def parseFormattingPart_def substring_def

lemmas string_defs = trim_def isWhiteSpace_def parseInt_def digitValue_def digitsValue_def

lemma key_lengths:
  "length FIRST_LEVEL_PART_KEY + 1 = 12" "length MAX_LEVEL_PART_KEY + 1 = 4"
  "length CONTENTS_PART_KEY + 1 = 9"
  by (simp_all add: FIRST_LEVEL_PART_KEY_def MAX_LEVEL_PART_KEY_def CONTENTS_PART_KEY_def)

section \<open>Splitting, scanning and replacing\<close>


lemma split_not_Nil: "split sep s \<noteq> []"
  by (induction s) (auto simp: Let_def)

lemma split_no_sep: "sep \<notin> set a \<Longrightarrow> split sep a = [a]"
  by (induction a) (auto simp: Let_def)

lemma split_append_sep: "sep \<notin> set a \<Longrightarrow> split sep (a @ sep # b) = a # split sep b"
  by (induction a) (auto simp: Let_def)

lemma findLine_None_iff:
  "findLineWhichStartsWith editor search i = None
   \<longleftrightarrow> (\<forall>j. i \<le> j \<and> j < lastLine editor \<longrightarrow> \<not> startsWith (getLine editor j) search)"
proof (induction editor search i rule: findLineWhichStartsWith.induct)
  case (1 editor search i)
  show ?case
  proof (cases "i < lastLine editor")
    case False
    then show ?thesis by (auto simp: findLineWhichStartsWith.simps [of editor search i])
  next
    case True
    show ?thesis
    proof (cases "startsWith (getLine editor i) search")
      case True
      with \<open>i < lastLine editor\<close> show ?thesis
        by (auto simp: findLineWhichStartsWith.simps [of editor search i])
    next
      case False
      with True 1 have "findLineWhichStartsWith editor search i = None
        \<longleftrightarrow> (\<forall>j. Suc i \<le> j \<and> j < lastLine editor \<longrightarrow> \<not> startsWith (getLine editor j) search)"
        by (simp add: findLineWhichStartsWith.simps [of editor search i])
      also have "\<dots> \<longleftrightarrow> (\<forall>j. i \<le> j \<and> j < lastLine editor \<longrightarrow> \<not> startsWith (getLine editor j) search)"
        using False by (metis Suc_leD Suc_leI le_neq_implies_less)
      finally show ?thesis .
    qed
  qed
qed

lemma findLine_Some_iff:
  "findLineWhichStartsWith editor search i = Some k
   \<longleftrightarrow> (i \<le> k \<and> k < lastLine editor \<and> startsWith (getLine editor k) search
        \<and> (\<forall>j. i \<le> j \<and> j < k \<longrightarrow> \<not> startsWith (getLine editor j) search))"
proof (induction editor search i rule: findLineWhichStartsWith.induct)
  case (1 editor search i)
  show ?case
  proof (cases "i < lastLine editor")
    case False
    then show ?thesis by (auto simp: findLineWhichStartsWith.simps [of editor search i])
  next
    case True
    show ?thesis
    proof (cases "startsWith (getLine editor i) search")
      case True
      with \<open>i < lastLine editor\<close> show ?thesis
        by (auto simp: findLineWhichStartsWith.simps [of editor search i])
    next
      case False
      with True 1 have "findLineWhichStartsWith editor search i = Some k
        \<longleftrightarrow> (Suc i \<le> k \<and> k < lastLine editor \<and> startsWith (getLine editor k) search
        \<and> (\<forall>j. Suc i \<le> j \<and> j < k \<longrightarrow> \<not> startsWith (getLine editor j) search))"
        by (simp add: findLineWhichStartsWith.simps [of editor search i])
      also have "\<dots> \<longleftrightarrow> (i \<le> k \<and> k < lastLine editor \<and> startsWith (getLine editor k) search
        \<and> (\<forall>j. i \<le> j \<and> j < k \<longrightarrow> \<not> startsWith (getLine editor j) search))"
        using False by (metis Suc_leD Suc_leI le_neq_implies_less)
      finally show ?thesis .
    qed
  qed
qed

lemma replace_one_line:
  assumes "wellFormedEditor editor" and "k < lastLine editor" and "CHR 0x0A \<notin> set new"
  shows "replaceRange (new @ [CHR 0x0A]) \<lparr>line = k, ch = 0\<rparr> \<lparr>line = k + 1, ch = 0\<rparr> editor
         = editor[k := new]"
proof -
  from assms(2) have len: "Suc k < length editor" by (simp add: lastLine_def)
  then have "editor ! Suc k \<in> set editor" by simp
  with assms(1) have nl: "CHR 0x0A \<notin> set (editor ! Suc k)" by (simp add: wellFormedEditor_def)
  have c1: "clipPos editor \<lparr>line = k, ch = 0\<rparr> = \<lparr>line = k, ch = 0\<rparr>"
    using assms(2) by (simp add: clipPos_def)
  have c2: "clipPos editor \<lparr>line = Suc k, ch = 0\<rparr> = \<lparr>line = Suc k, ch = 0\<rparr>"
    using assms(2) by (simp add: clipPos_def)
  have "split (CHR 0x0A) (new @ CHR 0x0A # editor ! Suc k) = [new, editor ! Suc k]"
    using assms(3) nl by (simp add: split_append_sep split_no_sep)
  then have "replaceRange (new @ [CHR 0x0A]) \<lparr>line = k, ch = 0\<rparr> \<lparr>line = k + 1, ch = 0\<rparr> editor
        = take k editor @ [new, editor ! Suc k] @ drop (Suc (Suc k)) editor"
    by (simp add: replaceRange_def c1 c2 getLine_def)
  also have "\<dots> = take k editor @ new # drop (Suc k) editor"
    using len by (simp add: Cons_nth_drop_Suc)
  also have "\<dots> = editor[k := new]"
    using len by (simp add: upd_conv_take_nth_drop)
  finally show ?thesis .
qed

lemma encode_sampleDefaults:
  "settingsToCompactFrontMatterValue sampleDefaults = ''first-level 1, max 6, 1.1''"
  by (simp add: settingsToCompactFrontMatterValue_def sampleDefaults_def intToString_def
        natToString.simps digitChar_def)

lemma property_compactFrontMatter: "property compactFrontMatter ''number headings'' \<noteq> JUndefined"
  by (simp add: property_def compactFrontMatter_def)

lemma startLine_compactFrontMatter: "startLine compactFrontMatter = 0"
  by (simp add: compactFrontMatter_def)

section \<open>The worked example\<close>

lemma split_example:
  "split CHR '','' ''auto, first-level 2, max 4, contents Table of Contents, _.1.A-''
   = [''auto'', '' first-level 2'', '' max 4'', '' contents Table of Contents'', '' _.1.A-'']"
  by simp

lemma trim_example:
  "trim ''auto'' = ''auto''" "trim '' first-level 2'' = ''first-level 2''"
  "trim '' max 4'' = ''max 4''"
  "trim '' contents Table of Contents'' = ''contents Table of Contents''"
  "trim '' _.1.A-'' = ''_.1.A-''"
  by (simp_all add: trim_def isWhiteSpace_def)

lemma parseInt_example: "parseInt ''2'' = JNum 2" "parseInt ''4'' = JNum 4"
  by (simp_all add: string_defs startsWith_def)

lemma natToString_example: "natToString 2 = ''2''" "natToString 4 = ''4''"
  by (simp_all add: natToString.simps digitChar_def)

text \<open>
  C6. If the validity predicates accept the levels 2 and 4, the contents
  \<open>Table of Contents\<close>, the styles \<open>1\<close> and \<open>A\<close> and the separator \<open>-\<close>, then the string
  \<open>auto, first-level 2, max 4, contents Table of Contents, _.1.A-\<close> decodes to the record
  with auto true, first level 2, max level 4, contents \<open>Table of Contents\<close>, skipTopLevel
  true, styles \<open>1\<close> and \<open>A\<close>, separator \<open>-\<close>, whatever the defaults are; and that record
  encodes to the same string.
\<close>

theorem example_decode_encode:
  assumes "isValidFirstOrMaxLevel env (JNum 2)" and "isValidFirstOrMaxLevel env (JNum 4)"
    and "isValidContents env ''Table of Contents''"
    and "isValidLevelStyle env ''1''" and "isValidLevelStyle env ''A''"
    and "isValidSeparator env ''-''"
  shows "parseCompactString env ''auto, first-level 2, max 4, contents Table of Contents, _.1.A-''
         = \<lparr>skipTopLevel = JBool True, firstLevel = JNum 2, maxLevel = JNum 4,
            styleLevel1 = ''1'', styleLevelOther = ''A'', auto = JBool True,
            separator = ''-'', contents = ''Table of Contents''\<rparr>
       \<and> settingsToCompactFrontMatterValue
           \<lparr>skipTopLevel = JBool True, firstLevel = JNum 2, maxLevel = JNum 4,
            styleLevel1 = ''1'', styleLevelOther = ''A'', auto = JBool True,
            separator = ''-'', contents = ''Table of Contents''\<rparr>
         = ''auto, first-level 2, max 4, contents Table of Contents, _.1.A-''"
proof
  show "parseCompactString env ''auto, first-level 2, max 4, contents Table of Contents, _.1.A-''
         = \<lparr>skipTopLevel = JBool True, firstLevel = JNum 2, maxLevel = JNum 4,
            styleLevel1 = ''1'', styleLevelOther = ''A'', auto = JBool True,
            separator = ''-'', contents = ''Table of Contents''\<rparr>"
    unfolding parseCompactString_def parseParts_def split_example
    using assms
    by (cases "DEFAULT_SETTINGS env")
       (simp add: loopBody_def trim_example part_defs parseInt_example)
next
  show "settingsToCompactFrontMatterValue
           \<lparr>skipTopLevel = JBool True, firstLevel = JNum 2, maxLevel = JNum 4,
            styleLevel1 = ''1'', styleLevelOther = ''A'', auto = JBool True,
            separator = ''-'', contents = ''Table of Contents''\<rparr>
         = ''auto, first-level 2, max 4, contents Table of Contents, _.1.A-''"
    by (simp add: settingsToCompactFrontMatterValue_def intToString_def natToString_example)
qed

theorem example_decode_encode_witness:
  "isValidFirstOrMaxLevel sampleTypes (JNum 2) \<and> isValidFirstOrMaxLevel sampleTypes (JNum 4)
   \<and> isValidContents sampleTypes ''Table of Contents''
   \<and> isValidLevelStyle sampleTypes ''1'' \<and> isValidLevelStyle sampleTypes ''A''
   \<and> isValidSeparator sampleTypes ''-''
   \<and> parseCompactString sampleTypes ''auto, first-level 2, max 4, contents Table of Contents, _.1.A-''
         = \<lparr>skipTopLevel = JBool True, firstLevel = JNum 2, maxLevel = JNum 4,
            styleLevel1 = ''1'', styleLevelOther = ''A'', auto = JBool True,
            separator = ''-'', contents = ''Table of Contents''\<rparr>
   \<and> settingsToCompactFrontMatterValue
           \<lparr>skipTopLevel = JBool True, firstLevel = JNum 2, maxLevel = JNum 4,
            styleLevel1 = ''1'', styleLevelOther = ''A'', auto = JBool True,
            separator = ''-'', contents = ''Table of Contents''\<rparr>
         = ''auto, first-level 2, max 4, contents Table of Contents, _.1.A-''"
proof -
  have a: "isValidFirstOrMaxLevel sampleTypes (JNum 2)" "isValidFirstOrMaxLevel sampleTypes (JNum 4)"
    "isValidContents sampleTypes ''Table of Contents''"
    "isValidLevelStyle sampleTypes ''1''" "isValidLevelStyle sampleTypes ''A''"
    "isValidSeparator sampleTypes ''-''"
    by (simp_all add: sampleTypes_def)
  from example_decode_encode [OF a] a show ?thesis by simp
qed

section \<open>Which decoder runs\<close>

text \<open>
  C1, as amended. The compact decoder's result is returned exactly when the lookup of
  \<open>number headings\<close> gives a truthy value (a non-empty string, a non-zero number, \<open>true\<close>,
  an array or an object); then the legacy path is not used. When the lookup gives a falsy
  value (the key is absent, or present with \<open>null\<close>, the empty string, \<open>0\<close>, \<open>NaN\<close> or
  \<open>false\<close>) the compact decoder returns nothing and the legacy path gives the result.
\<close>

theorem compact_decoder_iff_truthy:
  "(truthy (parseFrontMatterEntry fm ''number headings'') \<longrightarrow>
      parseCompactFrontMatterSettings env fm
        = Some (parseCompactString env (toString (parseFrontMatterEntry fm ''number headings'')))
      \<and> getFrontMatterSettingsOrAlternative env (Some fm) alternativeSettings
        = parseCompactString env (toString (parseFrontMatterEntry fm ''number headings'')))
   \<and> (\<not> truthy (parseFrontMatterEntry fm ''number headings'') \<longrightarrow>
      parseCompactFrontMatterSettings env fm = None
      \<and> getFrontMatterSettingsOrAlternative env (Some fm) alternativeSettings
        = legacyFrontMatterSettings env fm alternativeSettings)
   \<and> (entries fm ''number headings'' = None \<longrightarrow>
        \<not> truthy (parseFrontMatterEntry fm ''number headings''))"
  by (simp add: parseCompactFrontMatterSettings_def getFrontMatterSettingsOrAlternative_def
        parseFrontMatterEntry_def)

theorem compact_decoder_iff_truthy_witness:
  "truthy (parseFrontMatterEntry compactFrontMatter ''number headings'')
   \<and> getFrontMatterSettingsOrAlternative sampleTypes (Some compactFrontMatter) sampleDefaults
       = sampleDefaults\<lparr>maxLevel := JNum 3\<rparr>
   \<and> \<not> truthy (parseFrontMatterEntry emptyValueFrontMatter ''number headings'')
   \<and> getFrontMatterSettingsOrAlternative sampleTypes (Some emptyValueFrontMatter) sampleDefaults
       = sampleDefaults\<lparr>auto := JBool True\<rparr>
   \<and> entries \<lparr>entries = Map.empty, startLine = 0\<rparr> ''number headings'' = None
   \<and> \<not> truthy (parseFrontMatterEntry \<lparr>entries = Map.empty, startLine = 0\<rparr> ''number headings'')"
proof -
  have t: "truthy (parseFrontMatterEntry compactFrontMatter ''number headings'')"
    by (simp add: compactFrontMatter_def parseFrontMatterEntry_def)
  have f: "\<not> truthy (parseFrontMatterEntry emptyValueFrontMatter ''number headings'')"
    by (simp add: emptyValueFrontMatter_def parseFrontMatterEntry_def)
  have e: "entries \<lparr>entries = Map.empty, startLine = 0\<rparr> ''number headings'' = None"
    by simp
  have c: "parseCompactString sampleTypes
             (toString (parseFrontMatterEntry compactFrontMatter ''number headings''))
           = sampleDefaults\<lparr>maxLevel := JNum 3\<rparr>"
    by (simp add: compactFrontMatter_def parseFrontMatterEntry_def parseCompactString_def
          parseParts_def loopBody_def part_defs string_defs sampleTypes_def)
  have l: "legacyFrontMatterSettings sampleTypes emptyValueFrontMatter sampleDefaults
           = sampleDefaults\<lparr>auto := JBool True\<rparr>"
    by (simp add: emptyValueFrontMatter_def parseFrontMatterEntry_def legacyFrontMatterSettings_def
          coalesce_def sampleTypes_def sampleDefaults_def)
  from compact_decoder_iff_truthy [of compactFrontMatter sampleTypes sampleDefaults]
       compact_decoder_iff_truthy [of emptyValueFrontMatter sampleTypes sampleDefaults]
       compact_decoder_iff_truthy [of "\<lparr>entries = Map.empty, startLine = 0\<rparr>" sampleTypes sampleDefaults]
       t f e c l
  show ?thesis by simp
qed

text \<open>
  The claim as first stated fails: with the key present and its value the empty string,
  the compact decoder returns nothing and the result is the legacy decoder's, whose
  \<open>auto\<close> comes from the legacy key \<open>number-headings-auto\<close>.
\<close>

theorem present_but_empty_runs_legacy:
  "entries emptyValueFrontMatter ''number headings'' = Some (JStr '''')
   \<and> parseCompactFrontMatterSettings sampleTypes emptyValueFrontMatter = None
   \<and> getFrontMatterSettingsOrAlternative sampleTypes (Some emptyValueFrontMatter) sampleDefaults
       = legacyFrontMatterSettings sampleTypes emptyValueFrontMatter sampleDefaults
   \<and> auto (getFrontMatterSettingsOrAlternative sampleTypes (Some emptyValueFrontMatter) sampleDefaults)
       = JBool True
   \<and> auto sampleDefaults = JBool False"
  by (simp add: emptyValueFrontMatter_def parseCompactFrontMatterSettings_def
        parseFrontMatterEntry_def getFrontMatterSettingsOrAlternative_def
        legacyFrontMatterSettings_def coalesce_def sampleTypes_def sampleDefaults_def)

section \<open>The formatting branch and the classification of parts\<close>

text \<open>
  C2, as amended. A part that is none of the recognised tokens leaves \<open>auto\<close>,
  \<open>firstLevel\<close>, \<open>maxLevel\<close> and \<open>contents\<close> as they were, and changes a style field only
  to a segment that the style predicate accepts. It sets \<open>separator\<close> to its last
  character whenever that character is a valid separator, whether or not the rest is a
  valid descriptor, and that character is then cut off. It always assigns \<open>skipTopLevel\<close>:
  true when what is left after that cut has at least two segments between dots of which
  the first is \<open>_\<close>, false otherwise.
\<close>

theorem formatting_part_effect:
  assumes "isFormattingPart cleanPart"
  shows "auto (parsePart env settings cleanPart) = auto settings
       \<and> firstLevel (parsePart env settings cleanPart) = firstLevel settings
       \<and> maxLevel (parsePart env settings cleanPart) = maxLevel settings
       \<and> contents (parsePart env settings cleanPart) = contents settings
       \<and> styleLevel1 (parsePart env settings cleanPart)
            = (case descriptorStyle env cleanPart 0 of Some s \<Rightarrow> s | None \<Rightarrow> styleLevel1 settings)
       \<and> styleLevelOther (parsePart env settings cleanPart)
            = (case descriptorStyle env cleanPart 1 of Some s \<Rightarrow> s | None \<Rightarrow> styleLevelOther settings)
       \<and> skipTopLevel (parsePart env settings cleanPart)
            = JBool (firstNumberedDescriptor env cleanPart = 1)
       \<and> separator (parsePart env settings cleanPart)
            = (if isValidSeparator env [last cleanPart] then [last cleanPart]
               else separator settings)"
  using assms
  by (simp add: isFormattingPart_def parsePart_def parseFormattingPart_def Let_def
        firstNumberedDescriptor_def formattingDescriptors_def descriptorStyle_def)

theorem formatting_part_effect_witness:
  "isFormattingPart ''zzz-''
   \<and> parsePart sampleTypes (sampleDefaults\<lparr>skipTopLevel := JBool True\<rparr>) ''zzz-''
       = sampleDefaults\<lparr>skipTopLevel := JBool False, separator := ''-''\<rparr>"
proof -
  have a: "isFormattingPart ''zzz-''"
    by (simp add: isFormattingPart_def AUTO_PART_KEY_def FIRST_LEVEL_PART_KEY_def
          MAX_LEVEL_PART_KEY_def CONTENTS_PART_KEY_def startsWith_def)
  have b: "firstNumberedDescriptor sampleTypes ''zzz-'' = 0"
    by (simp add: firstNumberedDescriptor_def formattingDescriptors_def sampleTypes_def)
  have c: "isValidSeparator sampleTypes [last ''zzz-'']"
    by (simp add: sampleTypes_def)
  have d: "descriptorStyle sampleTypes ''zzz-'' 0 = None"
          "descriptorStyle sampleTypes ''zzz-'' 1 = None"
    by (simp_all add: descriptorStyle_def firstNumberedDescriptor_def formattingDescriptors_def
          sampleTypes_def)
  from formatting_part_effect [OF a, of sampleTypes "sampleDefaults\<lparr>skipTopLevel := JBool True\<rparr>"]
       a b c d
  show ?thesis
    by (simp add: sampleDefaults_def NumberHeadingsPluginSettings.equality)
qed

text \<open>
  The claim as first stated fails: after \<open>_.A.a:\<close> has set \<open>skipTopLevel\<close> and the
  separator \<open>:\<close>, the part \<open>zzz-\<close>, which is no token and no valid descriptor, resets
  \<open>skipTopLevel\<close> to false and replaces the separator by \<open>-\<close>.
\<close>

theorem invalid_part_changes_settings:
  "parseCompactString sampleTypes ''_.A.a:''
     = \<lparr>skipTopLevel = JBool True, firstLevel = JNum 1, maxLevel = JNum 6,
        styleLevel1 = ''A'', styleLevelOther = ''a'', auto = JBool False,
        separator = '':'', contents = ''''\<rparr>
   \<and> parseCompactString sampleTypes ''_.A.a:, zzz-''
     = \<lparr>skipTopLevel = JBool False, firstLevel = JNum 1, maxLevel = JNum 6,
        styleLevel1 = ''A'', styleLevelOther = ''a'', auto = JBool False,
        separator = ''-'', contents = ''''\<rparr>"
  by (simp add: parseCompactString_def parseParts_def loopBody_def part_defs string_defs
        sampleTypes_def sampleDefaults_def)

text \<open>
  C3, as amended. A trimmed part other than \<open>auto\<close> is classified by the bare key word,
  tested in the order \<open>first-level\<close>, \<open>max\<close>, \<open>contents\<close>; the value is the text after the
  key word and one further character, whatever that character is (for \<open>contents\<close> only
  when such text exists). Only a part that begins with none of the three key words
  reaches the formatting branch.
\<close>

theorem part_classification:
  assumes "cleanPart \<noteq> ''auto''"
  shows "(startsWith cleanPart ''first-level'' \<longrightarrow>
            parsePart env settings cleanPart
              = (if isValidFirstOrMaxLevel env (parseInt (drop 12 cleanPart))
                 then settings\<lparr>firstLevel := parseInt (drop 12 cleanPart)\<rparr> else settings))
       \<and> (\<not> startsWith cleanPart ''first-level'' \<and> startsWith cleanPart ''max'' \<longrightarrow>
            parsePart env settings cleanPart
              = (if isValidFirstOrMaxLevel env (parseInt (drop 4 cleanPart))
                 then settings\<lparr>maxLevel := parseInt (drop 4 cleanPart)\<rparr> else settings))
       \<and> (\<not> startsWith cleanPart ''first-level'' \<and> \<not> startsWith cleanPart ''max''
            \<and> startsWith cleanPart ''contents'' \<longrightarrow>
            parsePart env settings cleanPart
              = (if length cleanPart > 9 \<and> isValidContents env (drop 9 cleanPart)
                 then settings\<lparr>contents := drop 9 cleanPart\<rparr> else settings))
       \<and> (\<not> startsWith cleanPart ''first-level'' \<and> \<not> startsWith cleanPart ''max''
            \<and> \<not> startsWith cleanPart ''contents'' \<longrightarrow>
            parsePart env settings cleanPart = parseFormattingPart env settings cleanPart)"
  using assms
  unfolding parsePart_def parseFirstLevelPart_def parseMaxLevelPart_def parseContentsPart_def
    key_lengths substring_def Let_def
  by (simp add: AUTO_PART_KEY_def FIRST_LEVEL_PART_KEY_def MAX_LEVEL_PART_KEY_def
        CONTENTS_PART_KEY_def)

theorem part_classification_witness:
  "''max.5'' \<noteq> ''auto'' \<and> \<not> startsWith ''max.5'' ''first-level'' \<and> startsWith ''max.5'' ''max''
   \<and> parsePart sampleTypes sampleDefaults ''max.5'' = sampleDefaults\<lparr>maxLevel := JNum 5\<rparr>
   \<and> ''first-level 2'' \<noteq> ''auto'' \<and> startsWith ''first-level 2'' ''first-level''
   \<and> parsePart sampleTypes sampleDefaults ''first-level 2'' = sampleDefaults\<lparr>firstLevel := JNum 2\<rparr>
   \<and> ''contents x'' \<noteq> ''auto'' \<and> \<not> startsWith ''contents x'' ''first-level''
   \<and> \<not> startsWith ''contents x'' ''max'' \<and> startsWith ''contents x'' ''contents''
   \<and> parsePart sampleTypes sampleDefaults ''contents x'' = sampleDefaults\<lparr>contents := ''x''\<rparr>
   \<and> ''A.1'' \<noteq> ''auto'' \<and> \<not> startsWith ''A.1'' ''first-level''
   \<and> \<not> startsWith ''A.1'' ''max'' \<and> \<not> startsWith ''A.1'' ''contents''
   \<and> parsePart sampleTypes sampleDefaults ''A.1''
       = parseFormattingPart sampleTypes sampleDefaults ''A.1''"
proof -
  have v: "isValidFirstOrMaxLevel sampleTypes (parseInt (drop 4 ''max.5''))"
          "parseInt (drop 4 ''max.5'') = JNum 5"
          "isValidFirstOrMaxLevel sampleTypes (parseInt (drop 12 ''first-level 2''))"
          "parseInt (drop 12 ''first-level 2'') = JNum 2"
          "isValidContents sampleTypes (drop 9 ''contents x'')"
    by (simp_all add: string_defs startsWith_def sampleTypes_def)
  from part_classification [of "''max.5''" sampleTypes sampleDefaults]
       part_classification [of "''first-level 2''" sampleTypes sampleDefaults]
       part_classification [of "''contents x''" sampleTypes sampleDefaults]
       part_classification [of "''A.1''" sampleTypes sampleDefaults] v
  show ?thesis by (simp add: startsWith_def)
qed

text \<open>
  The claim as first stated fails: \<open>max.5\<close> and \<open>contentsxy\<close> do not begin with the key
  word and a space, yet the first sets \<open>maxLevel\<close> to 5 and the second sets \<open>contents\<close>
  to \<open>y\<close>, where the formatting branch would have changed neither.
\<close>

theorem bare_key_word_is_a_token:
  "\<not> startsWith ''max.5'' ''max ''
   \<and> parsePart sampleTypes sampleDefaults ''max.5'' = sampleDefaults\<lparr>maxLevel := JNum 5\<rparr>
   \<and> parseFormattingPart sampleTypes sampleDefaults ''max.5'' = sampleDefaults
   \<and> \<not> startsWith ''contentsxy'' ''contents ''
   \<and> parsePart sampleTypes sampleDefaults ''contentsxy'' = sampleDefaults\<lparr>contents := ''y''\<rparr>
   \<and> parseFormattingPart sampleTypes sampleDefaults ''contentsxy'' = sampleDefaults"
  by (simp add: part_defs string_defs sampleTypes_def sampleDefaults_def)

section \<open>Saving into the document\<close>

text \<open>
  C7. When the metadata defines the key \<open>number headings\<close> but the scan from the block's
  start line finds no line that begins with \<open>number headings\<close>, the save raises the error
  and leaves the document as it was.
\<close>

theorem save_raises_when_key_line_not_found:
  assumes "property fm ''number headings'' \<noteq> JUndefined"
    and "findLineWhichStartsWith editor ''number headings'' (startLine fm) = None"
  shows "saveSettingsToFrontMatter (Some fm) editor settings
         = (Some (Error keyNotFoundMessage), editor)"
  using assms by (simp add: saveSettingsToFrontMatter_def Let_def)

theorem save_raises_when_key_line_not_found_witness:
  "property compactFrontMatter ''number headings'' \<noteq> JUndefined
   \<and> findLineWhichStartsWith [''---'', '' number headings: max 3'', ''---'', ''body'']
        ''number headings'' (startLine compactFrontMatter) = None
   \<and> saveSettingsToFrontMatter (Some compactFrontMatter)
        [''---'', '' number headings: max 3'', ''---'', ''body''] sampleDefaults
       = (Some (Error keyNotFoundMessage), [''---'', '' number headings: max 3'', ''---'', ''body''])"
proof -
  have n: "findLineWhichStartsWith [''---'', '' number headings: max 3'', ''---'', ''body'']
        ''number headings'' (startLine compactFrontMatter) = None"
    by (simp add: startLine_compactFrontMatter findLineWhichStartsWith.simps lastLine_def
          getLine_def startsWith_def)
  from save_raises_when_key_line_not_found [OF property_compactFrontMatter n, of sampleDefaults] property_compactFrontMatter n
  show ?thesis by simp
qed

text \<open>
  C10. The scan finds nothing exactly when no line from the start line up to, but not
  including, the last line begins with the text sought. So when the metadata defines the
  key and the last line of the document is the only line that begins with
  \<open>number headings\<close>, the save raises the error although the key line exists, and the
  document is unchanged.
\<close>

theorem scan_excludes_last_line:
  "(findLineWhichStartsWith editor search afterLine = None
      \<longleftrightarrow> (\<forall>i. afterLine \<le> i \<and> i < lastLine editor \<longrightarrow> \<not> startsWith (getLine editor i) search))
   \<and> (property fm ''number headings'' \<noteq> JUndefined
        \<and> (\<forall>i < length editor. startsWith (getLine editor i) ''number headings'' \<longleftrightarrow> i = lastLine editor)
      \<longrightarrow> saveSettingsToFrontMatter (Some fm) editor settings
            = (Some (Error keyNotFoundMessage), editor))"
proof (intro conjI impI)
  show "findLineWhichStartsWith editor search afterLine = None
      \<longleftrightarrow> (\<forall>i. afterLine \<le> i \<and> i < lastLine editor \<longrightarrow> \<not> startsWith (getLine editor i) search)"
    by (rule findLine_None_iff)
next
  assume a: "property fm ''number headings'' \<noteq> JUndefined
        \<and> (\<forall>i < length editor. startsWith (getLine editor i) ''number headings'' \<longleftrightarrow> i = lastLine editor)"
  then have "\<forall>j. startLine fm \<le> j \<and> j < lastLine editor
               \<longrightarrow> \<not> startsWith (getLine editor j) ''number headings''"
    by (auto simp: lastLine_def)
  then have "findLineWhichStartsWith editor ''number headings'' (startLine fm) = None"
    by (simp add: findLine_None_iff)
  with a show "saveSettingsToFrontMatter (Some fm) editor settings
            = (Some (Error keyNotFoundMessage), editor)"
    by (simp add: saveSettingsToFrontMatter_def Let_def)
qed

theorem scan_excludes_last_line_witness:
  "findLineWhichStartsWith [''---'', ''number headings: max 3''] ''number headings'' 0 = None
   \<and> property compactFrontMatter ''number headings'' \<noteq> JUndefined
   \<and> length [''---'', ''number headings: max 3''] = 2
   \<and> lastLine [''---'', ''number headings: max 3''] = 1
   \<and> \<not> startsWith (getLine [''---'', ''number headings: max 3''] 0) ''number headings''
   \<and> startsWith (getLine [''---'', ''number headings: max 3''] 1) ''number headings''
   \<and> saveSettingsToFrontMatter (Some compactFrontMatter)
        [''---'', ''number headings: max 3''] sampleDefaults
       = (Some (Error keyNotFoundMessage), [''---'', ''number headings: max 3''])"
proof -
  have a: "\<forall>i < length [''---'', ''number headings: max 3''].
         startsWith (getLine [''---'', ''number headings: max 3''] i) ''number headings''
         \<longleftrightarrow> i = lastLine [''---'', ''number headings: max 3'']"
    by (simp add: less_Suc_eq getLine_def lastLine_def startsWith_def)
  have b: "\<forall>i. 0 \<le> i \<and> i < lastLine [''---'', ''number headings: max 3'']
         \<longrightarrow> \<not> startsWith (getLine [''---'', ''number headings: max 3''] i) ''number headings''"
    by (simp add: getLine_def lastLine_def startsWith_def)
  from scan_excludes_last_line [of "[''---'', ''number headings: max 3'']" "''number headings''" 0
              compactFrontMatter sampleDefaults]
       a b property_compactFrontMatter
  have "findLineWhichStartsWith [''---'', ''number headings: max 3''] ''number headings'' 0 = None
     \<and> saveSettingsToFrontMatter (Some compactFrontMatter)
        [''---'', ''number headings: max 3''] sampleDefaults
       = (Some (Error keyNotFoundMessage), [''---'', ''number headings: max 3''])"
    by blast
  then show ?thesis
    using property_compactFrontMatter by (simp add: getLine_def lastLine_def startsWith_def)
qed

lemma save_found:
  assumes wf: "wellFormedEditor editor"
    and key: "property fm ''number headings'' \<noteq> JUndefined"
    and found: "findLineWhichStartsWith editor ''number headings'' (startLine fm) = Some keyLine"
    and nl: "CHR 0x0A \<notin> set (settingsToCompactFrontMatterValue settings)"
  shows "saveSettingsToFrontMatter (Some fm) editor settings
           = (None, editor[keyLine := ''number headings: '' @ settingsToCompactFrontMatterValue settings])"
proof -
  from found have k: "keyLine < lastLine editor" by (simp add: findLine_Some_iff)
  have nl': "CHR 0x0A \<notin> set (''number headings: '' @ settingsToCompactFrontMatterValue settings)"
    using nl by simp
  show ?thesis
    using key found replace_one_line [OF wf k nl']
    by (simp add: saveSettingsToFrontMatter_def Let_def)
qed

lemma found_again:
  assumes "findLineWhichStartsWith editor ''number headings'' start = Some keyLine"
  shows "findLineWhichStartsWith (editor[keyLine := ''number headings: '' @ v])
           ''number headings'' start = Some keyLine"
proof -
  let ?ed = "editor[keyLine := ''number headings: '' @ v]"
  from assms have k: "start \<le> keyLine" "keyLine < lastLine editor"
      "\<forall>j. start \<le> j \<and> j < keyLine \<longrightarrow> \<not> startsWith (getLine editor j) ''number headings''"
    by (simp_all add: findLine_Some_iff)
  have last: "lastLine ?ed = lastLine editor" by (simp add: lastLine_def)
  have "keyLine < length editor" using k(2) by (simp add: lastLine_def)
  then have "getLine ?ed keyLine = ''number headings: '' @ v" by (simp add: getLine_def)
  then have sw: "startsWith (getLine ?ed keyLine) ''number headings''"
    by (simp add: startsWith_def)
  have "\<forall>j. start \<le> j \<and> j < keyLine \<longrightarrow> \<not> startsWith (getLine ?ed j) ''number headings''"
    using k(3) by (simp add: getLine_def)
  with k(1,2) sw last show ?thesis by (simp add: findLine_Some_iff)
qed

lemma wellFormed_update:
  assumes "wellFormedEditor editor" and "CHR 0x0A \<notin> set new"
  shows "wellFormedEditor (editor[k := new])"
  using assms
  by (auto simp: wellFormedEditor_def dest!: set_update_subset_insert [THEN subsetD])

text \<open>
  C8, as amended. Take a document of single lines whose metadata defines the key, and
  settings whose encoded value holds no line break. When the scan finds a line, it is
  the first line from the block's start line, the last line of the document excluded,
  that begins with \<open>number headings\<close> (the key's own line only if no earlier line there
  begins with that text); the save replaces that one line by \<open>number headings: value\<close>
  and touches no other line. When the scan finds none, the save raises the error and
  edits nothing. Either way, saving the same settings once more, with metadata that
  still defines the key and starts at the same line, leaves the document as the first
  save left it.
\<close>

theorem resave_replaces_one_line:
  assumes wf: "wellFormedEditor editor"
    and key: "property fm ''number headings'' \<noteq> JUndefined"
    and key': "property fm' ''number headings'' \<noteq> JUndefined"
    and start: "startLine fm' = startLine fm"
    and nl: "CHR 0x0A \<notin> set (settingsToCompactFrontMatterValue settings)"
  shows "(findLineWhichStartsWith editor ''number headings'' (startLine fm) = Some keyLine
          \<longrightarrow> saveSettingsToFrontMatter (Some fm) editor settings
                = (None, editor[keyLine := ''number headings: ''
                                              @ settingsToCompactFrontMatterValue settings])
              \<and> startLine fm \<le> keyLine \<and> keyLine < lastLine editor
              \<and> startsWith (getLine editor keyLine) ''number headings''
              \<and> (\<forall>j. startLine fm \<le> j \<and> j < keyLine
                    \<longrightarrow> \<not> startsWith (getLine editor j) ''number headings''))
       \<and> (findLineWhichStartsWith editor ''number headings'' (startLine fm) = None
          \<longrightarrow> saveSettingsToFrontMatter (Some fm) editor settings
                = (Some (Error keyNotFoundMessage), editor))
       \<and> saveSettingsToFrontMatter (Some fm')
            (snd (saveSettingsToFrontMatter (Some fm) editor settings)) settings
           = saveSettingsToFrontMatter (Some fm) editor settings"
proof (intro conjI impI)
  assume found: "findLineWhichStartsWith editor ''number headings'' (startLine fm) = Some keyLine"
  show "saveSettingsToFrontMatter (Some fm) editor settings
          = (None, editor[keyLine := ''number headings: ''
                                        @ settingsToCompactFrontMatterValue settings])"
    using wf key found nl by (rule save_found)
  show "startLine fm \<le> keyLine" "keyLine < lastLine editor"
    "startsWith (getLine editor keyLine) ''number headings''"
    "\<forall>j. startLine fm \<le> j \<and> j < keyLine
        \<longrightarrow> \<not> startsWith (getLine editor j) ''number headings''"
    using found by (simp_all add: findLine_Some_iff)
next
  assume "findLineWhichStartsWith editor ''number headings'' (startLine fm) = None"
  then show "saveSettingsToFrontMatter (Some fm) editor settings
               = (Some (Error keyNotFoundMessage), editor)"
    using key by (simp add: saveSettingsToFrontMatter_def Let_def)
next
  let ?new = "''number headings: '' @ settingsToCompactFrontMatterValue settings"
  show "saveSettingsToFrontMatter (Some fm')
            (snd (saveSettingsToFrontMatter (Some fm) editor settings)) settings
           = saveSettingsToFrontMatter (Some fm) editor settings"
  proof (cases "findLineWhichStartsWith editor ''number headings'' (startLine fm)")
    case None
    then show ?thesis
      using key key' start by (simp add: saveSettingsToFrontMatter_def Let_def)
  next
    case (Some k)
    have first: "saveSettingsToFrontMatter (Some fm) editor settings = (None, editor[k := ?new])"
      using wf key Some nl by (rule save_found)
    have nl': "CHR 0x0A \<notin> set ?new" using nl by simp
    have wf': "wellFormedEditor (editor[k := ?new])" using wf nl' by (rule wellFormed_update)
    have "findLineWhichStartsWith (editor[k := ?new]) ''number headings'' (startLine fm') = Some k"
      unfolding start using Some by (rule found_again)
    with wf' key'
    have "saveSettingsToFrontMatter (Some fm') (editor[k := ?new]) settings
          = (None, (editor[k := ?new])[k := ?new])"
      using nl by (rule save_found)
    then show ?thesis by (simp add: first)
  qed
qed

theorem resave_replaces_one_line_witness:
  "wellFormedEditor [''---'', ''number headings: max 3'', ''---'', ''body'']
   \<and> property compactFrontMatter ''number headings'' \<noteq> JUndefined
   \<and> findLineWhichStartsWith [''---'', ''number headings: max 3'', ''---'', ''body'']
        ''number headings'' (startLine compactFrontMatter) = Some 1
   \<and> CHR 0x0A \<notin> set (settingsToCompactFrontMatterValue sampleDefaults)
   \<and> saveSettingsToFrontMatter (Some compactFrontMatter)
        [''---'', ''number headings: max 3'', ''---'', ''body''] sampleDefaults
       = (None, [''---'', ''number headings: first-level 1, max 6, 1.1'', ''---'', ''body''])
   \<and> saveSettingsToFrontMatter (Some compactFrontMatter)
        [''---'', ''number headings: first-level 1, max 6, 1.1'', ''---'', ''body''] sampleDefaults
       = (None, [''---'', ''number headings: first-level 1, max 6, 1.1'', ''---'', ''body''])"
proof -
  have w: "wellFormedEditor [''---'', ''number headings: max 3'', ''---'', ''body'']"
    by (simp add: wellFormedEditor_def)
  have f: "findLineWhichStartsWith [''---'', ''number headings: max 3'', ''---'', ''body'']
        ''number headings'' (startLine compactFrontMatter) = Some 1"
    by (simp add: startLine_compactFrontMatter findLineWhichStartsWith.simps lastLine_def
          getLine_def startsWith_def)
  have n: "CHR 0x0A \<notin> set (settingsToCompactFrontMatterValue sampleDefaults)"
    by (simp add: encode_sampleDefaults)
  note r = resave_replaces_one_line [OF w property_compactFrontMatter property_compactFrontMatter
             refl n, of 1, unfolded encode_sampleDefaults]
  have s1: "saveSettingsToFrontMatter (Some compactFrontMatter)
        [''---'', ''number headings: max 3'', ''---'', ''body''] sampleDefaults
       = (None, [''---'', ''number headings: first-level 1, max 6, 1.1'', ''---'', ''body''])"
    using r [THEN conjunct1] f by simp
  have "saveSettingsToFrontMatter (Some compactFrontMatter)
        (snd (saveSettingsToFrontMatter (Some compactFrontMatter)
               [''---'', ''number headings: max 3'', ''---'', ''body''] sampleDefaults))
        sampleDefaults
       = saveSettingsToFrontMatter (Some compactFrontMatter)
           [''---'', ''number headings: max 3'', ''---'', ''body''] sampleDefaults"
    by (rule r [THEN conjunct2, THEN conjunct2])
  then have s2: "saveSettingsToFrontMatter (Some compactFrontMatter)
        [''---'', ''number headings: first-level 1, max 6, 1.1'', ''---'', ''body''] sampleDefaults
       = (None, [''---'', ''number headings: first-level 1, max 6, 1.1'', ''---'', ''body''])"
    unfolding s1 by simp
  from w property_compactFrontMatter f n s1 s2 show ?thesis by simp
qed

lemma encode_twoLineSettings:
  "settingsToCompactFrontMatterValue twoLineSettings
   = ''first-level 1, max 6, contents a'' @ [CHR 0x0A] @ ''b, 1.1''"
  by (simp add: settingsToCompactFrontMatterValue_def twoLineSettings_def sampleDefaults_def
        intToString_def natToString.simps digitChar_def)

lemma save_at_line_one:
  assumes "property fm ''number headings'' \<noteq> JUndefined" and "startLine fm = 0"
    and "\<not> startsWith l0 ''number headings''" and "startsWith l1 ''number headings''"
  shows "saveSettingsToFrontMatter (Some fm) (l0 # l1 # l2 # rest) settings
         = (None, l0 # split (CHR 0x0A)
                         (''number headings: '' @ settingsToCompactFrontMatterValue settings
                            @ [CHR 0x0A] @ l2) @ rest)"
proof -
  have "findLineWhichStartsWith (l0 # l1 # l2 # rest) ''number headings'' 0 = Some (Suc 0)"
    using assms(3,4) by (simp add: findLine_Some_iff lastLine_def getLine_def)
  then show ?thesis
    using assms(1,2)
    by (simp add: saveSettingsToFrontMatter_def Let_def replaceRange_def clipPos_def
          lastLine_def getLine_def)
qed

text \<open>
  The claim as first stated fails, in three ways. Where the line of another key begins
  with \<open>number headings\<close> and comes first, that line is overwritten and the key's own line
  stays, so the block holds the key twice. Where the key is written in quotes, no line
  is replaced: the save raises the error. Where the encoded value holds a line break,
  the second save adds a line to what the first one left.
\<close>

theorem save_misses_the_key_line:
  "property otherKeyFrontMatter ''number headings'' \<noteq> JUndefined
   \<and> saveSettingsToFrontMatter (Some otherKeyFrontMatter)
        [''---'', ''number headings extra: 1'', ''number headings: max 3'', ''---'', ''body'']
        sampleDefaults
       = (None, [''---'', ''number headings: first-level 1, max 6, 1.1'',
                 ''number headings: max 3'', ''---'', ''body''])
   \<and> property compactFrontMatter ''number headings'' \<noteq> JUndefined
   \<and> saveSettingsToFrontMatter (Some compactFrontMatter)
        [''---'', quotedKeyLine, ''---'', ''body''] sampleDefaults
       = (Some (Error keyNotFoundMessage), [''---'', quotedKeyLine, ''---'', ''body''])
   \<and> saveSettingsToFrontMatter (Some compactFrontMatter)
        [''---'', ''number headings: max 3'', ''---'', ''body''] twoLineSettings
       = (None, [''---'', ''number headings: first-level 1, max 6, contents a'', ''b, 1.1'',
                 ''---'', ''body''])
   \<and> saveSettingsToFrontMatter (Some compactFrontMatter)
        [''---'', ''number headings: first-level 1, max 6, contents a'', ''b, 1.1'',
         ''---'', ''body''] twoLineSettings
       = (None, [''---'', ''number headings: first-level 1, max 6, contents a'', ''b, 1.1'',
                 ''b, 1.1'', ''---'', ''body''])"
proof -
  have p: "property otherKeyFrontMatter ''number headings'' \<noteq> JUndefined"
    "startLine otherKeyFrontMatter = 0"
    by (simp_all add: property_def otherKeyFrontMatter_def)
  have n: "\<not> startsWith ''---'' ''number headings''"
    "startsWith ''number headings extra: 1'' ''number headings''"
    "startsWith ''number headings: max 3'' ''number headings''"
    "startsWith ''number headings: first-level 1, max 6, contents a'' ''number headings''"
    "\<not> startsWith quotedKeyLine ''number headings''"
    by (simp_all add: startsWith_def quotedKeyLine_def)
  have a: "saveSettingsToFrontMatter (Some otherKeyFrontMatter)
        [''---'', ''number headings extra: 1'', ''number headings: max 3'', ''---'', ''body'']
        sampleDefaults
       = (None, [''---'', ''number headings: first-level 1, max 6, 1.1'',
                 ''number headings: max 3'', ''---'', ''body''])"
    unfolding save_at_line_one [OF p n(1) n(2)] encode_sampleDefaults by simp
  have "findLineWhichStartsWith [''---'', quotedKeyLine, ''---'', ''body''] ''number headings''
          (startLine compactFrontMatter) = None"
    using n(1,5)
    by (simp add: findLine_None_iff lastLine_def getLine_def startLine_compactFrontMatter
          less_Suc_eq)
  then have b: "saveSettingsToFrontMatter (Some compactFrontMatter)
        [''---'', quotedKeyLine, ''---'', ''body''] sampleDefaults
       = (Some (Error keyNotFoundMessage), [''---'', quotedKeyLine, ''---'', ''body''])"
    using property_compactFrontMatter by (simp add: saveSettingsToFrontMatter_def Let_def)
  have c: "saveSettingsToFrontMatter (Some compactFrontMatter)
        [''---'', ''number headings: max 3'', ''---'', ''body''] twoLineSettings
       = (None, [''---'', ''number headings: first-level 1, max 6, contents a'', ''b, 1.1'',
                 ''---'', ''body''])"
    unfolding save_at_line_one [OF property_compactFrontMatter startLine_compactFrontMatter
                n(1) n(3)] encode_twoLineSettings
    by simp
  have d: "saveSettingsToFrontMatter (Some compactFrontMatter)
        [''---'', ''number headings: first-level 1, max 6, contents a'', ''b, 1.1'',
         ''---'', ''body''] twoLineSettings
       = (None, [''---'', ''number headings: first-level 1, max 6, contents a'', ''b, 1.1'',
                 ''b, 1.1'', ''---'', ''body''])"
    unfolding save_at_line_one [OF property_compactFrontMatter startLine_compactFrontMatter
                n(1) n(4)] encode_twoLineSettings
    by simp
  from p(1) a property_compactFrontMatter b c d show ?thesis by simp
qed

section \<open>The legacy decoder\<close>

lemma coalesce_lookup:
  "coalesce (parseFrontMatterEntry fm preferred) (parseFrontMatterEntry fm deprecated)
   = legacyEntry fm preferred deprecated"
proof (cases "entries fm preferred")
  case None
  then show ?thesis by (simp add: coalesce_def parseFrontMatterEntry_def legacyEntry_def)
next
  case (Some v)
  then show ?thesis
    by (cases v) (simp_all add: coalesce_def parseFrontMatterEntry_def legacyEntry_def)
qed

lemma legacy_fields:
  "firstLevel (legacyFrontMatterSettings env fm alt) = firstLevel (DEFAULT_SETTINGS env)"
  "contents (legacyFrontMatterSettings env fm alt) = contents (DEFAULT_SETTINGS env)"
  "separator (legacyFrontMatterSettings env fm alt) = separator (DEFAULT_SETTINGS env)"
  "skipTopLevel (legacyFrontMatterSettings env fm alt)
     = (if isValidFlag env (legacyEntry fm ''number-headings-skip-top-level'' ''header-numbering-skip-top-level'')
        then legacyEntry fm ''number-headings-skip-top-level'' ''header-numbering-skip-top-level''
        else skipTopLevel alt)"
  "maxLevel (legacyFrontMatterSettings env fm alt)
     = (if isValidFirstOrMaxLevel env (legacyEntry fm ''number-headings-max-level'' ''header-numbering-max-level'')
        then legacyEntry fm ''number-headings-max-level'' ''header-numbering-max-level''
        else maxLevel alt)"
  "styleLevel1 (legacyFrontMatterSettings env fm alt)
     = (if isValidLevelStyle env (toString (legacyEntry fm ''number-headings-style-level-1'' ''header-numbering-style-level-1''))
        then toString (legacyEntry fm ''number-headings-style-level-1'' ''header-numbering-style-level-1'')
        else styleLevel1 alt)"
  "styleLevelOther (legacyFrontMatterSettings env fm alt)
     = (if isValidLevelStyle env (toString (legacyEntry fm ''number-headings-style-level-other'' ''header-numbering-style-level-other''))
        then toString (legacyEntry fm ''number-headings-style-level-other'' ''header-numbering-style-level-other'')
        else styleLevelOther alt)"
  "auto (legacyFrontMatterSettings env fm alt)
     = (if isValidFlag env (legacyEntry fm ''number-headings-auto'' ''header-numbering-auto'')
        then legacyEntry fm ''number-headings-auto'' ''header-numbering-auto''
        else auto alt)"
  unfolding legacyFrontMatterSettings_def coalesce_lookup Let_def
  by (simp_all del: if_split cong: if_cong)

lemma legacyEntry_absent:
  "entries fm p = None \<Longrightarrow> entries fm d = None \<Longrightarrow> legacyEntry fm p d = JNull"
  by (simp add: legacyEntry_def)

lemma sample_rejects_null:
  "\<not> isValidFlag sampleTypes JNull" "\<not> isValidFirstOrMaxLevel sampleTypes JNull"
  "\<not> isValidLevelStyle sampleTypes ''null''"
  by (simp_all add: sampleTypes_def)

text \<open>
  C9, as amended. On the legacy path each of \<open>skipTopLevel\<close>, \<open>maxLevel\<close>,
  \<open>styleLevel1\<close>, \<open>styleLevelOther\<close> and \<open>auto\<close> is read from the preferred key, or from
  the deprecated alias when the preferred key is absent or holds \<open>null\<close> or \<open>undefined\<close>
  (the two styles are turned into text). The field is that entry if the validity
  predicate accepts it, and the field of the alternative settings otherwise; with both
  keys absent the entry is \<open>null\<close>, so the field is the alternative's when the predicate
  rejects \<open>null\<close> (for a style, the text \<open>null\<close>). The fields \<open>firstLevel\<close>, \<open>contents\<close> and
  \<open>separator\<close> are those of the defaults.
\<close>

theorem legacy_decoder_fields:
  assumes "\<not> truthy (parseFrontMatterEntry fm ''number headings'')"
  shows "(let r = getFrontMatterSettingsOrAlternative env (Some fm) alternativeSettings in
          firstLevel r = firstLevel (DEFAULT_SETTINGS env)
        \<and> contents r = contents (DEFAULT_SETTINGS env)
        \<and> separator r = separator (DEFAULT_SETTINGS env)
        \<and> skipTopLevel r
            = (let e = legacyEntry fm ''number-headings-skip-top-level'' ''header-numbering-skip-top-level''
               in if isValidFlag env e then e else skipTopLevel alternativeSettings)
        \<and> maxLevel r
            = (let e = legacyEntry fm ''number-headings-max-level'' ''header-numbering-max-level''
               in if isValidFirstOrMaxLevel env e then e else maxLevel alternativeSettings)
        \<and> styleLevel1 r
            = (let e = toString (legacyEntry fm ''number-headings-style-level-1'' ''header-numbering-style-level-1'')
               in if isValidLevelStyle env e then e else styleLevel1 alternativeSettings)
        \<and> styleLevelOther r
            = (let e = toString (legacyEntry fm ''number-headings-style-level-other'' ''header-numbering-style-level-other'')
               in if isValidLevelStyle env e then e else styleLevelOther alternativeSettings)
        \<and> auto r
            = (let e = legacyEntry fm ''number-headings-auto'' ''header-numbering-auto''
               in if isValidFlag env e then e else auto alternativeSettings)
        \<and> (entries fm ''number-headings-skip-top-level'' = None
             \<and> entries fm ''header-numbering-skip-top-level'' = None \<and> \<not> isValidFlag env JNull
            \<longrightarrow> skipTopLevel r = skipTopLevel alternativeSettings)
        \<and> (entries fm ''number-headings-max-level'' = None
             \<and> entries fm ''header-numbering-max-level'' = None \<and> \<not> isValidFirstOrMaxLevel env JNull
            \<longrightarrow> maxLevel r = maxLevel alternativeSettings)
        \<and> (entries fm ''number-headings-style-level-1'' = None
             \<and> entries fm ''header-numbering-style-level-1'' = None \<and> \<not> isValidLevelStyle env ''null''
            \<longrightarrow> styleLevel1 r = styleLevel1 alternativeSettings)
        \<and> (entries fm ''number-headings-style-level-other'' = None
             \<and> entries fm ''header-numbering-style-level-other'' = None \<and> \<not> isValidLevelStyle env ''null''
            \<longrightarrow> styleLevelOther r = styleLevelOther alternativeSettings)
        \<and> (entries fm ''number-headings-auto'' = None
             \<and> entries fm ''header-numbering-auto'' = None \<and> \<not> isValidFlag env JNull
            \<longrightarrow> auto r = auto alternativeSettings))"
proof -
  have r: "getFrontMatterSettingsOrAlternative env (Some fm) alternativeSettings
           = legacyFrontMatterSettings env fm alternativeSettings"
    using assms
    by (simp add: getFrontMatterSettingsOrAlternative_def parseCompactFrontMatterSettings_def)
  show ?thesis
    unfolding r Let_def legacy_fields
    by (intro conjI impI; (elim conjE)?; simp only: legacyEntry_absent toString.simps if_False refl)
qed

theorem legacy_decoder_fields_witness:
  "\<not> truthy (parseFrontMatterEntry legacyFrontMatter ''number headings'')
   \<and> entries legacyFrontMatter ''number-headings-skip-top-level'' = None
   \<and> entries legacyFrontMatter ''header-numbering-skip-top-level'' = None
   \<and> \<not> isValidFlag sampleTypes JNull
   \<and> entries legacyFrontMatter ''number-headings-style-level-other'' = None
   \<and> entries legacyFrontMatter ''header-numbering-style-level-other'' = None
   \<and> \<not> isValidLevelStyle sampleTypes ''null''
   \<and> getFrontMatterSettingsOrAlternative sampleTypes (Some legacyFrontMatter) legacyAlternative
       = \<lparr>skipTopLevel = JBool True, firstLevel = JNum 1, maxLevel = JNum 3,
          styleLevel1 = ''A'', styleLevelOther = ''I'', auto = JBool True,
          separator = [], contents = []\<rparr>"
proof -
  have t: "\<not> truthy (parseFrontMatterEntry legacyFrontMatter ''number headings'')"
    by (simp add: parseFrontMatterEntry_def legacyFrontMatter_def)
  have e: "entries legacyFrontMatter ''number-headings-skip-top-level'' = None"
    "entries legacyFrontMatter ''header-numbering-skip-top-level'' = None"
    "entries legacyFrontMatter ''number-headings-style-level-other'' = None"
    "entries legacyFrontMatter ''header-numbering-style-level-other'' = None"
    by (simp_all add: legacyFrontMatter_def)
  have l: "legacyEntry legacyFrontMatter ''number-headings-max-level'' ''header-numbering-max-level'' = JNum 3"
    "legacyEntry legacyFrontMatter ''number-headings-style-level-1'' ''header-numbering-style-level-1'' = JStr ''A''"
    "legacyEntry legacyFrontMatter ''number-headings-auto'' ''header-numbering-auto'' = JStr ''yes''"
    "legacyEntry legacyFrontMatter ''number-headings-skip-top-level'' ''header-numbering-skip-top-level'' = JNull"
    "legacyEntry legacyFrontMatter ''number-headings-style-level-other'' ''header-numbering-style-level-other'' = JNull"
    by (simp_all add: legacyEntry_def legacyFrontMatter_def)
  have v: "isValidFirstOrMaxLevel sampleTypes (JNum 3)" "isValidLevelStyle sampleTypes (toString (JStr ''A''))"
    "\<not> isValidFlag sampleTypes (JStr ''yes'')" "\<not> isValidLevelStyle sampleTypes (toString JNull)"
    by (simp_all add: sampleTypes_def)
  have d: "firstLevel (DEFAULT_SETTINGS sampleTypes) = JNum 1"
    "contents (DEFAULT_SETTINGS sampleTypes) = []" "separator (DEFAULT_SETTINGS sampleTypes) = []"
    by (simp_all add: sampleTypes_def sampleDefaults_def)
  have a: "skipTopLevel legacyAlternative = JBool True" "styleLevelOther legacyAlternative = ''I''"
    "auto legacyAlternative = JBool True"
    by (simp_all add: legacyAlternative_def)
  note r = legacy_decoder_fields [OF t, of sampleTypes legacyAlternative, unfolded Let_def l d]
  let ?r = "getFrontMatterSettingsOrAlternative sampleTypes (Some legacyFrontMatter) legacyAlternative"
  have f1: "firstLevel ?r = JNum 1" using r by (elim conjE)
  have f2: "contents ?r = []" using r by (elim conjE)
  have f3: "separator ?r = []" using r by (elim conjE)
  have f4: "skipTopLevel ?r = JBool True"
    using r sample_rejects_null(1) a(1) by (elim conjE) simp
  have f5: "maxLevel ?r = JNum 3" using r v(1) by (elim conjE) simp
  have f6: "styleLevel1 ?r = ''A''" using r v(2) by (elim conjE) simp
  have f7: "styleLevelOther ?r = ''I''" using r v(4) a(2) by (elim conjE) simp
  have f8: "auto ?r = JBool True" using r v(3) a(3) by (elim conjE) simp
  have "?r = \<lparr>skipTopLevel = JBool True, firstLevel = JNum 1, maxLevel = JNum 3,
          styleLevel1 = ''A'', styleLevelOther = ''I'', auto = JBool True,
          separator = [], contents = []\<rparr>"
    by (rule NumberHeadingsPluginSettings.equality) (simp_all add: f1 f2 f3 f4 f5 f6 f7 f8)
  with t e sample_rejects_null show ?thesis by simp
qed

text \<open>
  The claim as first stated fails: with \<open>number-headings-auto\<close> present and holding
  \<open>null\<close>, which is no valid flag, the result's \<open>auto\<close> is not the alternative's but the
  value \<open>true\<close> of the alias \<open>header-numbering-auto\<close>.
\<close>

theorem null_preferred_key_reads_alias:
  "entries nullPreferredFrontMatter ''number-headings-auto'' = Some JNull
   \<and> entries nullPreferredFrontMatter ''header-numbering-auto'' = Some (JBool True)
   \<and> \<not> isValidFlag sampleTypes JNull
   \<and> auto sampleDefaults = JBool False
   \<and> getFrontMatterSettingsOrAlternative sampleTypes (Some nullPreferredFrontMatter) sampleDefaults
       = legacyFrontMatterSettings sampleTypes nullPreferredFrontMatter sampleDefaults
   \<and> auto (getFrontMatterSettingsOrAlternative sampleTypes (Some nullPreferredFrontMatter)
             sampleDefaults)
       = JBool True"
proof -
  have e: "entries nullPreferredFrontMatter ''number-headings-auto'' = Some JNull"
    "entries nullPreferredFrontMatter ''header-numbering-auto'' = Some (JBool True)"
    "entries nullPreferredFrontMatter ''number headings'' = None"
    by (simp_all add: nullPreferredFrontMatter_def)
  have r: "getFrontMatterSettingsOrAlternative sampleTypes (Some nullPreferredFrontMatter)
             sampleDefaults
           = legacyFrontMatterSettings sampleTypes nullPreferredFrontMatter sampleDefaults"
    by (simp add: getFrontMatterSettingsOrAlternative_def parseCompactFrontMatterSettings_def
          parseFrontMatterEntry_def e)
  have l: "legacyEntry nullPreferredFrontMatter ''number-headings-auto'' ''header-numbering-auto''
           = JBool True"
    by (simp add: legacyEntry_def e)
  have v: "isValidFlag sampleTypes (JBool True)" "\<not> isValidFlag sampleTypes JNull"
    by (simp_all add: sampleTypes_def)
  have a: "auto (legacyFrontMatterSettings sampleTypes nullPreferredFrontMatter sampleDefaults)
           = JBool True"
    by (simp add: legacy_fields(8) l v)
  have d: "auto sampleDefaults = JBool False" by (simp add: sampleDefaults_def)
  from e(1,2) v(2) d r a show ?thesis by simp
qed

section \<open>Fields that keep the default\<close>

lemma foldl_loopBody:
  "foldl (loopBody env) settings parts
   = foldl (parsePart env) settings (filter (\<lambda>cleanPart. length cleanPart \<noteq> 0) (map trim parts))"
  by (induction parts arbitrary: settings) (simp_all add: loopBody_def Let_def)

lemma parseCompactString_cleanParts:
  "parseCompactString env entryString
   = foldl (parsePart env) (DEFAULT_SETTINGS env) (cleanParts entryString)"
  by (simp add: parseCompactString_def parseParts_def cleanParts_def foldl_loopBody)

lemma foldl_keeps_field:
  assumes "\<And>settings p. p \<in> set parts \<Longrightarrow> f (step settings p) = f settings"
  shows "f (foldl step settings parts) = f settings"
  using assms by (induction parts arbitrary: settings) simp_all

lemma parsePart_cases:
  "parsePart env settings p
   = (if p = AUTO_PART_KEY then settings\<lparr>auto := JBool True\<rparr>
      else if startsWith p FIRST_LEVEL_PART_KEY then parseFirstLevelPart env settings p
      else if startsWith p MAX_LEVEL_PART_KEY then parseMaxLevelPart env settings p
      else if startsWith p CONTENTS_PART_KEY then parseContentsPart env settings p
      else parseFormattingPart env settings p)"
  by (simp add: parsePart_def)

lemma value_parts_fields:
  "auto (parseFirstLevelPart env settings p) = auto settings"
  "maxLevel (parseFirstLevelPart env settings p) = maxLevel settings"
  "contents (parseFirstLevelPart env settings p) = contents settings"
  "skipTopLevel (parseFirstLevelPart env settings p) = skipTopLevel settings"
  "separator (parseFirstLevelPart env settings p) = separator settings"
  "styleLevel1 (parseFirstLevelPart env settings p) = styleLevel1 settings"
  "styleLevelOther (parseFirstLevelPart env settings p) = styleLevelOther settings"
  "auto (parseMaxLevelPart env settings p) = auto settings"
  "firstLevel (parseMaxLevelPart env settings p) = firstLevel settings"
  "contents (parseMaxLevelPart env settings p) = contents settings"
  "skipTopLevel (parseMaxLevelPart env settings p) = skipTopLevel settings"
  "separator (parseMaxLevelPart env settings p) = separator settings"
  "styleLevel1 (parseMaxLevelPart env settings p) = styleLevel1 settings"
  "styleLevelOther (parseMaxLevelPart env settings p) = styleLevelOther settings"
  "auto (parseContentsPart env settings p) = auto settings"
  "firstLevel (parseContentsPart env settings p) = firstLevel settings"
  "maxLevel (parseContentsPart env settings p) = maxLevel settings"
  "skipTopLevel (parseContentsPart env settings p) = skipTopLevel settings"
  "separator (parseContentsPart env settings p) = separator settings"
  "styleLevel1 (parseContentsPart env settings p) = styleLevel1 settings"
  "styleLevelOther (parseContentsPart env settings p) = styleLevelOther settings"
  by (simp_all add: parseFirstLevelPart_def parseMaxLevelPart_def parseContentsPart_def Let_def)

lemma formatting_part_fields:
  "auto (parseFormattingPart env settings p) = auto settings"
  "firstLevel (parseFormattingPart env settings p) = firstLevel settings"
  "maxLevel (parseFormattingPart env settings p) = maxLevel settings"
  "contents (parseFormattingPart env settings p) = contents settings"
  "separator (parseFormattingPart env settings p)
     = (if isValidSeparator env [last p] then [last p] else separator settings)"
  "styleLevel1 (parseFormattingPart env settings p)
     = (case descriptorStyle env p 0 of Some s \<Rightarrow> s | None \<Rightarrow> styleLevel1 settings)"
  "styleLevelOther (parseFormattingPart env settings p)
     = (case descriptorStyle env p 1 of Some s \<Rightarrow> s | None \<Rightarrow> styleLevelOther settings)"
  by (simp_all add: parseFormattingPart_def Let_def descriptorStyle_def
        firstNumberedDescriptor_def formattingDescriptors_def)

lemma step_keeps_auto: "\<not> setsAuto p \<Longrightarrow> auto (parsePart env settings p) = auto settings"
  by (simp add: parsePart_cases setsAuto_def value_parts_fields formatting_part_fields)

lemma step_keeps_firstLevel:
  "\<not> setsFirstLevel env p \<Longrightarrow> firstLevel (parsePart env settings p) = firstLevel settings"
  by (auto simp: parsePart_cases setsFirstLevel_def value_parts_fields formatting_part_fields
        parseFirstLevelPart_def Let_def)

lemma step_keeps_maxLevel:
  "\<not> setsMaxLevel env p \<Longrightarrow> maxLevel (parsePart env settings p) = maxLevel settings"
  by (auto simp: parsePart_cases setsMaxLevel_def value_parts_fields formatting_part_fields
        parseMaxLevelPart_def Let_def)

lemma step_keeps_contents:
  "\<not> setsContents env p \<Longrightarrow> contents (parsePart env settings p) = contents settings"
  by (auto simp: parsePart_cases setsContents_def value_parts_fields formatting_part_fields
        parseContentsPart_def Let_def)

lemma step_keeps_skipTopLevel:
  "\<not> isFormattingPart p \<Longrightarrow> skipTopLevel (parsePart env settings p) = skipTopLevel settings"
  by (auto simp: parsePart_cases isFormattingPart_def value_parts_fields)

lemma step_keeps_separator:
  "\<not> setsSeparator env p \<Longrightarrow> separator (parsePart env settings p) = separator settings"
  by (auto simp: parsePart_cases setsSeparator_def isFormattingPart_def value_parts_fields
        formatting_part_fields)

lemma step_keeps_styleLevel1:
  "\<not> setsStyleLevel1 env p \<Longrightarrow> styleLevel1 (parsePart env settings p) = styleLevel1 settings"
  by (auto simp: parsePart_cases setsStyleLevel1_def isFormattingPart_def value_parts_fields
        formatting_part_fields)

lemma step_keeps_styleLevelOther:
  "\<not> setsStyleLevelOther env p
   \<Longrightarrow> styleLevelOther (parsePart env settings p) = styleLevelOther settings"
  by (auto simp: parsePart_cases setsStyleLevelOther_def isFormattingPart_def value_parts_fields
        formatting_part_fields)

text \<open>
  C5. When the compact entry is present (truthy), the result does not depend on the
  alternative settings: it is the same for any two of them. And each field that no part
  of the entry sets has the value of the default settings record: \<open>auto\<close> when no part
  is \<open>auto\<close>; \<open>firstLevel\<close>, \<open>maxLevel\<close>, \<open>contents\<close> when no part is a token of
  that kind with a value that passes its check; \<open>skipTopLevel\<close> when no part reaches the
  formatting branch; \<open>separator\<close> and the two styles when no formatting part carries a
  valid one.
\<close>

theorem compact_defaults_preserved:
  assumes "truthy (parseFrontMatterEntry fm ''number headings'')"
  shows "(let parts = set (cleanParts (toString (parseFrontMatterEntry fm ''number headings'')));
              r = getFrontMatterSettingsOrAlternative env (Some fm) alternativeSettings in
          r = getFrontMatterSettingsOrAlternative env (Some fm) otherAlternative
        \<and> ((\<forall>p \<in> parts. \<not> setsAuto p) \<longrightarrow> auto r = auto (DEFAULT_SETTINGS env))
        \<and> ((\<forall>p \<in> parts. \<not> setsFirstLevel env p) \<longrightarrow> firstLevel r = firstLevel (DEFAULT_SETTINGS env))
        \<and> ((\<forall>p \<in> parts. \<not> setsMaxLevel env p) \<longrightarrow> maxLevel r = maxLevel (DEFAULT_SETTINGS env))
        \<and> ((\<forall>p \<in> parts. \<not> setsContents env p) \<longrightarrow> contents r = contents (DEFAULT_SETTINGS env))
        \<and> ((\<forall>p \<in> parts. \<not> isFormattingPart p)
              \<longrightarrow> skipTopLevel r = skipTopLevel (DEFAULT_SETTINGS env))
        \<and> ((\<forall>p \<in> parts. \<not> setsSeparator env p)
              \<longrightarrow> separator r = separator (DEFAULT_SETTINGS env))
        \<and> ((\<forall>p \<in> parts. \<not> setsStyleLevel1 env p)
              \<longrightarrow> styleLevel1 r = styleLevel1 (DEFAULT_SETTINGS env))
        \<and> ((\<forall>p \<in> parts. \<not> setsStyleLevelOther env p)
              \<longrightarrow> styleLevelOther r = styleLevelOther (DEFAULT_SETTINGS env)))"
proof -
  let ?s = "toString (parseFrontMatterEntry fm ''number headings'')"
  have r: "\<And>alt. getFrontMatterSettingsOrAlternative env (Some fm) alt
             = foldl (parsePart env) (DEFAULT_SETTINGS env) (cleanParts ?s)"
    using assms
    by (simp add: getFrontMatterSettingsOrAlternative_def parseCompactFrontMatterSettings_def
          parseCompactString_cleanParts)
  show ?thesis
    unfolding Let_def r
    by (intro conjI impI refl foldl_keeps_field step_keeps_auto step_keeps_firstLevel
          step_keeps_maxLevel step_keeps_contents step_keeps_skipTopLevel step_keeps_separator
          step_keeps_styleLevel1 step_keeps_styleLevelOther) blast+
qed

theorem compact_defaults_preserved_witness:
  "truthy (parseFrontMatterEntry subsetFrontMatter ''number headings'')
   \<and> cleanParts (toString (parseFrontMatterEntry subsetFrontMatter ''number headings''))
       = [''auto'', ''max 3'']
   \<and> getFrontMatterSettingsOrAlternative sampleTypes (Some subsetFrontMatter) legacyAlternative
       = getFrontMatterSettingsOrAlternative sampleTypes (Some subsetFrontMatter) sampleDefaults
   \<and> firstLevel (getFrontMatterSettingsOrAlternative sampleTypes (Some subsetFrontMatter) legacyAlternative)
       = JNum 1
   \<and> contents (getFrontMatterSettingsOrAlternative sampleTypes (Some subsetFrontMatter) legacyAlternative)
       = ''''
   \<and> skipTopLevel (getFrontMatterSettingsOrAlternative sampleTypes (Some subsetFrontMatter) legacyAlternative)
       = JBool False
   \<and> separator (getFrontMatterSettingsOrAlternative sampleTypes (Some subsetFrontMatter) legacyAlternative)
       = ''''
   \<and> styleLevel1 (getFrontMatterSettingsOrAlternative sampleTypes (Some subsetFrontMatter) legacyAlternative)
       = ''1''
   \<and> styleLevelOther (getFrontMatterSettingsOrAlternative sampleTypes (Some subsetFrontMatter) legacyAlternative)
       = ''1''"
proof -
  have t: "truthy (parseFrontMatterEntry subsetFrontMatter ''number headings'')"
    by (simp add: subsetFrontMatter_def parseFrontMatterEntry_def)
  have c: "cleanParts (toString (parseFrontMatterEntry subsetFrontMatter ''number headings''))
           = [''auto'', ''max 3'']"
    by (simp add: subsetFrontMatter_def parseFrontMatterEntry_def cleanParts_def trim_def
          isWhiteSpace_def)
  have n: "\<not> isFormattingPart ''auto''" "\<not> isFormattingPart ''max 3''"
    "\<not> setsFirstLevel sampleTypes ''auto''" "\<not> setsFirstLevel sampleTypes ''max 3''"
    "\<not> setsContents sampleTypes ''auto''" "\<not> setsContents sampleTypes ''max 3''"
    by (simp_all add: isFormattingPart_def setsFirstLevel_def setsContents_def AUTO_PART_KEY_def
          FIRST_LEVEL_PART_KEY_def MAX_LEVEL_PART_KEY_def CONTENTS_PART_KEY_def startsWith_def)
  then have m: "\<not> setsSeparator sampleTypes ''auto''" "\<not> setsSeparator sampleTypes ''max 3''"
    "\<not> setsStyleLevel1 sampleTypes ''auto''" "\<not> setsStyleLevel1 sampleTypes ''max 3''"
    "\<not> setsStyleLevelOther sampleTypes ''auto''" "\<not> setsStyleLevelOther sampleTypes ''max 3''"
    by (simp_all add: setsSeparator_def setsStyleLevel1_def setsStyleLevelOther_def)
  have d: "firstLevel (DEFAULT_SETTINGS sampleTypes) = JNum 1"
    "contents (DEFAULT_SETTINGS sampleTypes) = []" "separator (DEFAULT_SETTINGS sampleTypes) = []"
    "skipTopLevel (DEFAULT_SETTINGS sampleTypes) = JBool False"
    "styleLevel1 (DEFAULT_SETTINGS sampleTypes) = ''1''"
    "styleLevelOther (DEFAULT_SETTINGS sampleTypes) = ''1''"
    by (simp_all add: sampleTypes_def sampleDefaults_def)
  note r = compact_defaults_preserved [OF t, of sampleTypes legacyAlternative sampleDefaults, unfolded Let_def c d]
  let ?r = "getFrontMatterSettingsOrAlternative sampleTypes (Some subsetFrontMatter) legacyAlternative"
  have f0: "?r = getFrontMatterSettingsOrAlternative sampleTypes (Some subsetFrontMatter) sampleDefaults"
    using r by (elim conjE)
  have f1: "firstLevel ?r = JNum 1" using r n by (elim conjE) simp
  have f2: "contents ?r = []" using r n by (elim conjE) simp
  have f3: "skipTopLevel ?r = JBool False" using r n by (elim conjE) simp
  have f4: "separator ?r = []" using r m by (elim conjE) simp
  have f5: "styleLevel1 ?r = ''1''" using r m by (elim conjE) simp
  have f6: "styleLevelOther ?r = ''1''" using r m by (elim conjE) simp
  from t c f0 f1 f2 f3 f4 f5 f6 show ?thesis by simp
qed

section \<open>Decoding what the encoder writes\<close>

subsection \<open>Numerals\<close>

lemma digit_cases: "d < 10 \<Longrightarrow> d \<in> {0, 1, 2, 3, 4, 5, 6, 7, 8, 9::nat}"
  by auto

lemma digitChar_in: "d < 10 \<Longrightarrow> digitChar d \<in> decimalDigits"
  unfolding digitChar_def decimalDigits_def by (rule nth_mem) simp

lemma digitValue_digitChar: "d < 10 \<Longrightarrow> digitValue (digitChar d) = d"
  by (drule digit_cases) (auto simp: digitChar_def digitValue_def)

lemma decimal_char:
  assumes "c \<in> decimalDigits"
  shows "digitValue c < 10" and "\<not> isWhiteSpace c" and "c \<noteq> CHR '',''" and "c \<noteq> CHR ''-''"
    and "c \<noteq> CHR ''+''" and "c \<noteq> CHR ''x''" and "c \<noteq> CHR ''X''" and "c \<noteq> CHR ''.''"
  using assms by (auto simp: decimalDigits_def digitValue_def isWhiteSpace_def)

lemma natToString_chars: "set (natToString n) \<subseteq> decimalDigits"
proof (induction n rule: natToString.induct)
  case (1 n)
  show ?case
  proof (cases "n < 10")
    case True
    then show ?thesis using digitChar_in [of n] by (simp add: natToString.simps [of n])
  next
    case False
    then have "set (natToString (n div 10)) \<subseteq> decimalDigits" by (rule 1)
    moreover have "digitChar (n mod 10) \<in> decimalDigits" by (rule digitChar_in) simp
    ultimately show ?thesis using False by (simp add: natToString.simps [of n])
  qed
qed

lemma natToString_not_Nil: "natToString n \<noteq> []"
  by (subst natToString.simps) simp

lemma digitsValue_snoc: "digitsValue radix (z @ [c]) = digitsValue radix z * radix + digitValue c"
  by (simp add: digitsValue_def)

lemma digitsValue_natToString: "digitsValue 10 (natToString n) = n"
proof (induction n rule: natToString.induct)
  case (1 n)
  show ?case
  proof (cases "n < 10")
    case True
    then show ?thesis
      by (simp add: natToString.simps [of n] digitsValue_def digitValue_digitChar)
  next
    case False
    then have "digitsValue 10 (natToString (n div 10)) = n div 10" by (rule 1)
    then show ?thesis
      using False by (simp add: natToString.simps [of n] digitsValue_snoc digitValue_digitChar)
  qed
qed

lemma takeWhile_natToString:
  "takeWhile (\<lambda>c. digitValue c < 10) (natToString n) = natToString n"
proof -
  have "\<forall>c \<in> set (natToString n). digitValue c < 10"
    using natToString_chars [of n] decimal_char(1) by blast
  then show ?thesis by (simp add: takeWhile_eq_all_conv)
qed

lemma natToString_no_hex:
  "\<not> startsWith (natToString n) ''0x''" "\<not> startsWith (natToString n) ''0X''"
proof -
  have p: "\<And>p. prefix p (natToString n) \<Longrightarrow> set p \<subseteq> decimalDigits"
    using natToString_chars [of n] by (auto simp: prefix_def)
  show "\<not> startsWith (natToString n) ''0x''"
  proof
    assume "startsWith (natToString n) ''0x''"
    then have "set ''0x'' \<subseteq> decimalDigits" unfolding startsWith_def by (rule p)
    then have "CHR ''x'' \<in> decimalDigits" by simp
    then show False using decimal_char(6) by blast
  qed
  show "\<not> startsWith (natToString n) ''0X''"
  proof
    assume "startsWith (natToString n) ''0X''"
    then have "set ''0X'' \<subseteq> decimalDigits" unfolding startsWith_def by (rule p)
    then have "CHR ''X'' \<in> decimalDigits" by simp
    then show False using decimal_char(7) by blast
  qed
qed

lemma hd_natToString: "hd (natToString n) \<in> decimalDigits"
  using natToString_chars [of n] natToString_not_Nil [of n] by (meson hd_in_set subsetD)

lemma dropWhile_hd: "s \<noteq> [] \<Longrightarrow> \<not> P (hd s) \<Longrightarrow> dropWhile P s = s"
  by (cases s) simp_all

lemma parseInt_unsigned:
  assumes "s \<noteq> []" and "hd s \<in> decimalDigits"
    and "\<not> startsWith s ''0x''" and "\<not> startsWith s ''0X''"
    and "takeWhile (\<lambda>c. digitValue c < 10) s = s"
  shows "parseInt s = JNum (int (digitsValue 10 s))"
proof -
  have ws: "dropWhile isWhiteSpace s = s"
    using assms(1,2) by (simp add: dropWhile_hd decimal_char(2))
  have sign: "hd s \<noteq> CHR ''-''" "hd s \<noteq> CHR ''+''"
    using assms(2) decimal_char(4,5) by blast+
  show ?thesis
    unfolding parseInt_def ws Let_def
    using assms(1) by (simp add: sign assms(3,4,5))
qed

lemma parseInt_natToString: "parseInt (natToString n) = JNum (int n)"
  using parseInt_unsigned [OF natToString_not_Nil hd_natToString natToString_no_hex
          takeWhile_natToString, of n]
  by (simp add: digitsValue_natToString)

lemma parseInt_negative:
  assumes "s \<noteq> []"
    and "\<not> startsWith s ''0x''" and "\<not> startsWith s ''0X''"
    and "takeWhile (\<lambda>c. digitValue c < 10) s = s"
  shows "parseInt (CHR ''-'' # s) = JNum (- int (digitsValue 10 s))"
proof -
  have ws: "dropWhile isWhiteSpace (CHR ''-'' # s) = CHR ''-'' # s"
    by (simp add: isWhiteSpace_def)
  show ?thesis
    unfolding parseInt_def ws Let_def
    using assms(1) by (simp add: assms(2,3,4))
qed

lemma parseInt_minus_natToString:
  "parseInt (CHR ''-'' # natToString n) = JNum (- int n)"
  using parseInt_negative [OF natToString_not_Nil natToString_no_hex takeWhile_natToString, of n]
  by (simp add: digitsValue_natToString)

lemma parseInt_intToString: "parseInt (intToString i) = JNum i"
  by (simp add: intToString_def parseInt_natToString parseInt_minus_natToString)

lemma intToString_chars: "set (intToString i) \<subseteq> insert (CHR ''-'') decimalDigits"
  using natToString_chars by (auto simp: intToString_def)

lemma intToString_not_Nil: "intToString i \<noteq> []"
  by (simp add: intToString_def natToString_not_Nil)

lemma intToString_plain:
  "CHR '','' \<notin> set (intToString i)" "\<And>c. c \<in> set (intToString i) \<Longrightarrow> \<not> isWhiteSpace c"
proof -
  show "CHR '','' \<notin> set (intToString i)"
    using intToString_chars [of i] decimal_char(3) by auto
  show "\<And>c. c \<in> set (intToString i) \<Longrightarrow> \<not> isWhiteSpace c"
  proof -
    fix c assume "c \<in> set (intToString i)"
    then have "c = CHR ''-'' \<or> c \<in> decimalDigits" using intToString_chars [of i] by auto
    then show "\<not> isWhiteSpace c"
      using decimal_char(2) by (auto simp: isWhiteSpace_def)
  qed
qed

subsection \<open>Parts of a joined string\<close>

lemma split_pieces: "x \<in> set (split sep s) \<Longrightarrow> sep \<notin> set x"
proof (induction s arbitrary: x)
  case Nil
  then show ?case by simp
next
  case (Cons c cs)
  have ne: "split sep cs \<noteq> []" by (rule split_not_Nil)
  show ?case
  proof (cases "c = sep")
    case True
    with Cons show ?thesis by auto
  next
    case False
    with Cons.prems have "x = c # hd (split sep cs) \<or> x \<in> set (tl (split sep cs))"
      by (simp add: Let_def)
    then show ?thesis
    proof
      assume "x = c # hd (split sep cs)"
      moreover have "sep \<notin> set (hd (split sep cs))" using ne by (intro Cons.IH) simp
      ultimately show ?thesis using False by simp
    next
      assume "x \<in> set (tl (split sep cs))"
      then have "x \<in> set (split sep cs)" using ne by (meson list.set_sel(2))
      then show ?thesis by (rule Cons.IH)
    qed
  qed
qed

lemma trim_subset: "set (trim s) \<subseteq> set s"
proof -
  have "set (trim s) \<subseteq> set (dropWhile isWhiteSpace s)"
    unfolding trim_def using set_dropWhileD by fastforce
  also have "\<dots> \<subseteq> set s" using set_dropWhileD by fastforce
  finally show ?thesis .
qed

lemma trim_ends:
  assumes "trim s \<noteq> []"
  shows "\<not> isWhiteSpace (hd (trim s))" and "\<not> isWhiteSpace (last (trim s))"
proof -
  let ?a = "dropWhile isWhiteSpace s"
  let ?b = "dropWhile isWhiteSpace (rev ?a)"
  from assms have b: "?b \<noteq> []" by (simp add: trim_def)
  then have hb: "\<not> isWhiteSpace (hd ?b)" by (rule hd_dropWhile)
  have "last (trim s) = hd ?b" using b by (simp add: trim_def last_rev)
  with hb show "\<not> isWhiteSpace (last (trim s))" by simp
  from b have a: "?a \<noteq> []" by (metis dropWhile.simps(1) rev.simps(1))
  then have ha: "\<not> isWhiteSpace (hd ?a)" by (rule hd_dropWhile)
  obtain us where us: "rev ?a = us @ ?b" by (metis takeWhile_dropWhile_id)
  then have "?a = rev ?b @ rev us" by (metis rev_append rev_rev_ident)
  then have "hd ?a = hd (rev ?b)" using b by (metis hd_append2 rev_is_Nil_conv)
  with ha show "\<not> isWhiteSpace (hd (trim s))" by (simp add: trim_def)
qed

lemma trim_clean:
  assumes "isCleanPart p"
  shows "trim p = p"
proof -
  from assms have p: "p \<noteq> []" "\<not> isWhiteSpace (hd p)" "\<not> isWhiteSpace (last p)"
    by (simp_all add: isCleanPart_def)
  have 1: "dropWhile isWhiteSpace p = p" using p(1,2) by (rule dropWhile_hd)
  have 2: "dropWhile isWhiteSpace (rev p) = rev p"
    using p(1,3) by (intro dropWhile_hd) (simp_all add: hd_rev)
  show ?thesis by (simp add: trim_def 1 2)
qed

lemma trim_space: "trim (CHR '' '' # s) = trim s"
  by (simp add: trim_def isWhiteSpace_def)

lemma cleanParts_clean: "p \<in> set (cleanParts s) \<Longrightarrow> isCleanPart p"
proof -
  assume "p \<in> set (cleanParts s)"
  then obtain x where x: "x \<in> set (split (CHR '','') s)" and p: "p = trim x" and ne: "p \<noteq> []"
    by (auto simp: cleanParts_def)
  from x have "CHR '','' \<notin> set x" by (rule split_pieces)
  then have "CHR '','' \<notin> set p" using trim_subset [of x] p by blast
  with ne trim_ends [of x] p show ?thesis by (simp add: isCleanPart_def)
qed

lemma map_trim_space:
  "map trim (split (CHR '','') (CHR '' '' # s)) = map trim (split (CHR '','') s)"
proof -
  have "split (CHR '','') s \<noteq> []" by (rule split_not_Nil)
  then obtain h t where "split (CHR '','') s = h # t" by (cases "split (CHR '','') s") auto
  then show ?thesis by (simp add: Let_def trim_space)
qed

lemma cleanParts_single: "isCleanPart p \<Longrightarrow> cleanParts p = [p]"
  by (simp add: cleanParts_def split_no_sep isCleanPart_def trim_clean)

lemma cleanParts_join:
  assumes "isCleanPart p"
  shows "cleanParts (p @ '', '' @ rest) = p # cleanParts rest"
proof -
  from assms have c: "CHR '','' \<notin> set p" by (simp add: isCleanPart_def)
  have "split (CHR '','') (p @ CHR '','' # CHR '' '' # rest)
        = p # split (CHR '','') (CHR '' '' # rest)"
    using c by (rule split_append_sep)
  then have "cleanParts (p @ CHR '','' # CHR '' '' # rest)
        = filter (\<lambda>x. length x \<noteq> 0) (trim p # map trim (split (CHR '','') rest))"
    unfolding cleanParts_def by (simp only: list.map map_trim_space)
  then show ?thesis
    using assms by (simp add: trim_clean cleanParts_def isCleanPart_def)
qed

lemma cleanParts_joinParts:
  "ps \<noteq> [] \<Longrightarrow> \<forall>p \<in> set ps. isCleanPart p \<Longrightarrow> cleanParts (joinParts ps) = ps"
proof (induction ps rule: joinParts.induct)
  case 1
  then show ?case by simp
next
  case (2 p)
  then show ?case by (simp add: cleanParts_single)
next
  case (3 p q ps)
  then have "cleanParts (joinParts (q # ps)) = q # ps" by simp
  moreover have "isCleanPart p" using 3 by simp
  ultimately show ?case by (simp only: joinParts.simps cleanParts_join)
qed

subsection \<open>What the decoder maintains\<close>

lemma formatting_skip_field:
  "skipTopLevel (parseFormattingPart env settings p) = JBool (firstNumberedDescriptor env p = 1)"
  by (simp add: parseFormattingPart_def Let_def firstNumberedDescriptor_def
        formattingDescriptors_def)

lemma parsePart_formatting:
  "isFormattingPart p \<Longrightarrow> parsePart env settings p = parseFormattingPart env settings p"
  by (simp add: parsePart_cases isFormattingPart_def)

lemma descriptorStyle_valid: "descriptorStyle env p k = Some s \<Longrightarrow> isValidLevelStyle env s"
  by (auto simp: descriptorStyle_def Let_def split: if_splits)

lemma decoded_defaults: "roundTripTypes env \<Longrightarrow> decoded env (DEFAULT_SETTINGS env)"
  by (simp add: roundTripTypes_def decoded_def)

lemma decoded_auto: "decoded env st \<Longrightarrow> decoded env (st\<lparr>auto := JBool True\<rparr>)"
  by (simp add: decoded_def)

lemma decoded_firstLevel:
  "decoded env st \<Longrightarrow> decoded env (parseFirstLevelPart env st p)"
  by (simp add: decoded_def parseFirstLevelPart_def Let_def)

lemma decoded_maxLevel:
  "decoded env st \<Longrightarrow> decoded env (parseMaxLevelPart env st p)"
  by (simp add: decoded_def parseMaxLevelPart_def Let_def)

lemma plainContents_drop:
  assumes "isCleanPart p" and "k < length p"
  shows "plainContents (drop k p)"
proof -
  have "CHR '','' \<notin> set (drop k p)"
    using assms(1) set_drop_subset [of k p] by (auto simp: isCleanPart_def)
  moreover have "last (drop k p) = last p" using assms(2) by (rule last_drop)
  ultimately show ?thesis using assms(1) by (simp add: plainContents_def isCleanPart_def)
qed

lemma decoded_contents:
  assumes "isCleanPart p" and "decoded env st"
  shows "decoded env (parseContentsPart env st p)"
proof (cases "length p \<le> length CONTENTS_PART_KEY + 1")
  case True
  then show ?thesis using assms(2) by (simp add: parseContentsPart_def)
next
  case False
  then have "plainContents (drop (length CONTENTS_PART_KEY + 1) p)"
    using assms(1) by (intro plainContents_drop) simp_all
  then show ?thesis
    using assms(2) False by (simp add: decoded_def parseContentsPart_def Let_def substring_def)
qed

lemma decoded_formatting:
  assumes "isCleanPart p" and "decoded env st"
  shows "decoded env (parseFormattingPart env st p)"
proof -
  have "last p \<in> set p" and "CHR '','' \<notin> set p"
    using assms(1) by (simp_all add: isCleanPart_def)
  then have "last p \<noteq> CHR '',''" by metis
  then have sep: "isValidSeparator env [last p] \<Longrightarrow> plainSeparator env [last p]"
    using assms(1) by (simp add: plainSeparator_def isCleanPart_def)
  have s1: "isValidLevelStyle env (styleLevel1 (parseFormattingPart env st p))
            \<or> styleLevel1 (parseFormattingPart env st p) = styleLevel1 st"
    by (auto simp: formatting_part_fields dest: descriptorStyle_valid split: option.splits)
  have s2: "isValidLevelStyle env (styleLevelOther (parseFormattingPart env st p))
            \<or> styleLevelOther (parseFormattingPart env st p) = styleLevelOther st"
    by (auto simp: formatting_part_fields dest: descriptorStyle_valid split: option.splits)
  from assms(2) have d:
    "auto st = JBool True \<or> auto st = auto (DEFAULT_SETTINGS env)"
    "isValidFirstOrMaxLevel env (firstLevel st) \<or> firstLevel st = firstLevel (DEFAULT_SETTINGS env)"
    "isValidFirstOrMaxLevel env (maxLevel st) \<or> maxLevel st = maxLevel (DEFAULT_SETTINGS env)"
    "plainContents (contents st)"
    "contents st \<noteq> [] \<and> isValidContents env (contents st)
       \<or> contents st = contents (DEFAULT_SETTINGS env)"
    "isValidLevelStyle env (styleLevel1 st) \<or> styleLevel1 st = styleLevel1 (DEFAULT_SETTINGS env)"
    "isValidLevelStyle env (styleLevelOther st) \<or> styleLevelOther st = styleLevelOther (DEFAULT_SETTINGS env)"
    "plainSeparator env (separator st) \<or> separator st = separator (DEFAULT_SETTINGS env)"
    by (simp_all add: decoded_def)
  have t1: "isValidLevelStyle env (styleLevel1 (parseFormattingPart env st p))
            \<or> styleLevel1 (parseFormattingPart env st p) = styleLevel1 (DEFAULT_SETTINGS env)"
    using s1 d(6) by metis
  have t2: "isValidLevelStyle env (styleLevelOther (parseFormattingPart env st p))
            \<or> styleLevelOther (parseFormattingPart env st p) = styleLevelOther (DEFAULT_SETTINGS env)"
    using s2 d(7) by metis
  have t3: "plainSeparator env (separator (parseFormattingPart env st p))
            \<or> separator (parseFormattingPart env st p) = separator (DEFAULT_SETTINGS env)"
    using sep d(8) by (simp add: formatting_part_fields(5))
  have t4: "isFlag (skipTopLevel (parseFormattingPart env st p))"
    by (simp add: formatting_skip_field isFlag_def)
  show ?thesis
    unfolding decoded_def formatting_part_fields(1-4)
    using d(1-5) t1 t2 t3 t4 by (intro conjI)
qed

lemma decoded_parsePart:
  assumes "isCleanPart p" and "decoded env st"
  shows "decoded env (parsePart env st p)"
  unfolding parsePart_cases
  using assms
  by (simp add: decoded_auto decoded_firstLevel decoded_maxLevel decoded_contents
        decoded_formatting)

lemma decoded_foldl:
  "\<forall>p \<in> set ps. isCleanPart p \<Longrightarrow> decoded env st \<Longrightarrow> decoded env (foldl (parsePart env) st ps)"
  by (induction ps arbitrary: st) (simp_all add: decoded_parsePart)

lemma decoded_parseCompactString:
  "roundTripTypes env \<Longrightarrow> decoded env (parseCompactString env entryString)"
  unfolding parseCompactString_cleanParts
  by (intro decoded_foldl decoded_defaults ballI cleanParts_clean)

subsection \<open>The formatting tail\<close>

lemma not_prefix_extend:
  assumes "\<not> prefix kw s" and "x \<notin> set kw"
  shows "\<not> prefix kw (s @ x # rest)"
proof
  assume "prefix kw (s @ x # rest)"
  then consider "prefix kw s" | us where "kw = s @ us" and "prefix us (x # rest)"
    by (auto simp: prefix_append)
  then show False
  proof cases
    case 1
    with assms(1) show False by contradiction
  next
    case 2
    show False
    proof (cases us)
      case Nil
      with 2(1) assms(1) show False by simp
    next
      case (Cons u us')
      with 2(2) have "u = x" by simp
      with Cons 2(1) assms(2) show False by simp
    qed
  qed
qed

lemma stylePart_formatting:
  assumes "plainStyle env s1"
  shows "isFormattingPart (stylePart skip s1 s2 sep)"
proof (cases skip)
  case True
  then show ?thesis
    by (simp add: isFormattingPart_def stylePart_def AUTO_PART_KEY_def FIRST_LEVEL_PART_KEY_def
          MAX_LEVEL_PART_KEY_def CONTENTS_PART_KEY_def startsWith_def)
next
  case False
  from assms have n: "\<not> prefix FIRST_LEVEL_PART_KEY s1" "\<not> prefix MAX_LEVEL_PART_KEY s1"
    "\<not> prefix CONTENTS_PART_KEY s1"
    by (simp_all add: plainStyle_def startsWith_def)
  have k: "CHR ''.'' \<notin> set FIRST_LEVEL_PART_KEY" "CHR ''.'' \<notin> set MAX_LEVEL_PART_KEY"
    "CHR ''.'' \<notin> set CONTENTS_PART_KEY" "CHR ''.'' \<notin> set AUTO_PART_KEY"
    by (simp_all add: FIRST_LEVEL_PART_KEY_def MAX_LEVEL_PART_KEY_def CONTENTS_PART_KEY_def
          AUTO_PART_KEY_def)
  have e: "stylePart skip s1 s2 sep = s1 @ CHR ''.'' # (s2 @ sep)"
    using False by (simp add: stylePart_def)
  have "CHR ''.'' \<in> set (stylePart skip s1 s2 sep)" unfolding e by simp
  with k(4) have "stylePart skip s1 s2 sep \<noteq> AUTO_PART_KEY" by metis
  then show ?thesis
    unfolding isFormattingPart_def startsWith_def e
    using not_prefix_extend [OF n(1) k(1)] not_prefix_extend [OF n(2) k(2)]
      not_prefix_extend [OF n(3) k(3)] by (simp add: e)
qed

lemma stylePart_remaining:
  assumes "plainStyle env s2" and "sep = [] \<or> plainSeparator env sep"
  shows "(if isValidSeparator env [last (stylePart skip s1 s2 sep)]
          then take (length (stylePart skip s1 s2 sep) - 1) (stylePart skip s1 s2 sep)
          else stylePart skip s1 s2 sep)
         = (if skip then ''_.'' else '''') @ s1 @ ''.'' @ s2"
    and "isValidSeparator env [last (stylePart skip s1 s2 sep)] \<longleftrightarrow> sep \<noteq> []"
    and "sep \<noteq> [] \<Longrightarrow> [last (stylePart skip s1 s2 sep)] = sep"
proof -
  let ?pre = "(if skip then ''_.'' else '''') @ s1 @ ''.'' @ s2"
  have e: "stylePart skip s1 s2 sep = ?pre @ sep" by (simp add: stylePart_def)
  from assms(1) have s2: "s2 \<noteq> []" "\<not> isValidSeparator env [last s2]"
    by (simp_all add: plainStyle_def)
  have l: "last ?pre = last s2" using s2(1) by simp
  show "isValidSeparator env [last (stylePart skip s1 s2 sep)] \<longleftrightarrow> sep \<noteq> []"
  proof (cases "sep = []")
    case True
    then show ?thesis unfolding e using l s2(2) by simp
  next
    case False
    with assms(2) obtain c where "sep = [c]" "isValidSeparator env [c]"
      by (cases sep) (auto simp: plainSeparator_def)
    then show ?thesis unfolding e by simp
  qed
  show "sep \<noteq> [] \<Longrightarrow> [last (stylePart skip s1 s2 sep)] = sep"
  proof -
    assume "sep \<noteq> []"
    with assms(2) obtain c where "sep = [c]"
      by (cases sep) (auto simp: plainSeparator_def)
    then show ?thesis unfolding e by simp
  qed
  show "(if isValidSeparator env [last (stylePart skip s1 s2 sep)]
          then take (length (stylePart skip s1 s2 sep) - 1) (stylePart skip s1 s2 sep)
          else stylePart skip s1 s2 sep) = ?pre"
  proof (cases "sep = []")
    case True
    then show ?thesis unfolding e using l s2(2) by simp
  next
    case False
    with assms(2) obtain c where c: "sep = [c]" "isValidSeparator env [c]"
      by (cases sep) (auto simp: plainSeparator_def)
    then show ?thesis unfolding e by simp
  qed
qed

lemma stylePart_descriptors:
  assumes "plainStyle env s1" and "plainStyle env s2" and "sep = [] \<or> plainSeparator env sep"
  shows "formattingDescriptors env (stylePart skip s1 s2 sep)
         = (if skip then [''_'', s1, s2] else [s1, s2])"
proof -
  from assms(1,2) have d: "CHR ''.'' \<notin> set s1" "CHR ''.'' \<notin> set s2"
    by (simp_all add: plainStyle_def)
  have a: "split (CHR ''.'') (s1 @ CHR ''.'' # s2) = [s1, s2]"
    using d by (simp add: split_append_sep split_no_sep)
  have "formattingDescriptors env (stylePart skip s1 s2 sep)
        = split (CHR ''.'') ((if skip then ''_.'' else '''') @ s1 @ ''.'' @ s2)"
    unfolding formattingDescriptors_def stylePart_remaining(1) [OF assms(2,3)] ..
  then show ?thesis using a by (simp add: Let_def)
qed

lemma stylePart_first:
  assumes "plainStyle env s1" and "plainStyle env s2" and "sep = [] \<or> plainSeparator env sep"
  shows "firstNumberedDescriptor env (stylePart skip s1 s2 sep) = (if skip then 1 else 0)"
proof -
  from assms(1) have "s1 \<noteq> ''_''" by (simp add: plainStyle_def)
  then show ?thesis
    by (simp add: firstNumberedDescriptor_def stylePart_descriptors [OF assms])
qed

lemma stylePart_styles:
  assumes "plainStyle env s1" and "plainStyle env s2" and "sep = [] \<or> plainSeparator env sep"
  shows "descriptorStyle env (stylePart skip s1 s2 sep) 0
         = (if isValidLevelStyle env s1 then Some s1 else None)"
    and "descriptorStyle env (stylePart skip s1 s2 sep) 1
         = (if isValidLevelStyle env s2 then Some s2 else None)"
  by (simp_all add: descriptorStyle_def stylePart_descriptors [OF assms] stylePart_first [OF assms])

lemma stylePart_effect:
  assumes "plainStyle env s1" and "plainStyle env s2" and "sep = [] \<or> plainSeparator env sep"
  shows "skipTopLevel (parsePart env st (stylePart skip s1 s2 sep)) = JBool skip"
    and "separator (parsePart env st (stylePart skip s1 s2 sep))
         = (if sep = [] then separator st else sep)"
    and "styleLevel1 (parsePart env st (stylePart skip s1 s2 sep))
         = (if isValidLevelStyle env s1 then s1 else styleLevel1 st)"
    and "styleLevelOther (parsePart env st (stylePart skip s1 s2 sep))
         = (if isValidLevelStyle env s2 then s2 else styleLevelOther st)"
    and "auto (parsePart env st (stylePart skip s1 s2 sep)) = auto st"
    and "firstLevel (parsePart env st (stylePart skip s1 s2 sep)) = firstLevel st"
    and "maxLevel (parsePart env st (stylePart skip s1 s2 sep)) = maxLevel st"
    and "contents (parsePart env st (stylePart skip s1 s2 sep)) = contents st"
  unfolding parsePart_formatting [OF stylePart_formatting [OF assms(1)]]
    formatting_part_fields formatting_skip_field stylePart_first [OF assms]
    stylePart_styles [OF assms] stylePart_remaining(2) [OF assms(2,3)]
  using stylePart_remaining(3) [OF assms(2,3)] by simp_all

lemma stylePart_clean:
  assumes "plainStyle env s1" and "plainStyle env s2" and "sep = [] \<or> plainSeparator env sep"
  shows "isCleanPart (stylePart skip s1 s2 sep)"
proof -
  from assms(1) have s1: "s1 \<noteq> []" "CHR '','' \<notin> set s1" "\<not> isWhiteSpace (hd s1)"
    by (auto simp: plainStyle_def)
  from assms(2) have s2: "s2 \<noteq> []" "CHR '','' \<notin> set s2" "\<not> isWhiteSpace (last s2)"
    by (auto simp: plainStyle_def)
  from assms(3) have sp: "CHR '','' \<notin> set sep" "sep = [] \<or> \<not> isWhiteSpace (last sep)"
    by (cases sep; auto simp: plainSeparator_def)+
  have hd: "\<not> isWhiteSpace (hd (stylePart skip s1 s2 sep))"
    using s1(1,3) by (simp add: stylePart_def isWhiteSpace_def)
  have "last (stylePart skip s1 s2 sep) = (if sep = [] then last s2 else last sep)"
    using s2(1) by (simp add: stylePart_def)
  then have last: "\<not> isWhiteSpace (last (stylePart skip s1 s2 sep))"
    using s2(3) sp(2) by auto
  have "CHR '','' \<notin> set (stylePart skip s1 s2 sep)"
    using s1(2) s2(2) sp(1) by (simp add: stylePart_def)
  with hd last show ?thesis by (simp add: isCleanPart_def stylePart_def)
qed

subsection \<open>The round trip\<close>

lemma encode_joinParts:
  "settingsToCompactFrontMatterValue r
   = joinParts ((if truthy (auto r) then [''auto''] else [])
                @ [''first-level '' @ toString (firstLevel r), ''max '' @ toString (maxLevel r)]
                @ (if contents r \<noteq> [] then [''contents '' @ contents r] else [])
                @ [stylePart (truthy (skipTopLevel r)) (styleLevel1 r) (styleLevelOther r)
                     (separator r)])"
  by (simp add: settingsToCompactFrontMatterValue_def stylePart_def Let_def)

lemma auto_part_clean: "isCleanPart ''auto''"
  by (simp add: isCleanPart_def isWhiteSpace_def)

lemma level_part_clean:
  "isCleanPart (''first-level '' @ intToString n)" "isCleanPart (''max '' @ intToString n)"
proof -
  have "last (intToString n) \<in> set (intToString n)" by (simp add: intToString_not_Nil)
  then have "\<not> isWhiteSpace (last (intToString n))" by (rule intToString_plain(2))
  then show "isCleanPart (''first-level '' @ intToString n)"
    "isCleanPart (''max '' @ intToString n)"
    by (simp_all add: isCleanPart_def isWhiteSpace_def intToString_plain(1) intToString_not_Nil)
qed

lemma contents_part_clean:
  "plainContents c \<Longrightarrow> c \<noteq> [] \<Longrightarrow> isCleanPart (''contents '' @ c)"
  by (simp add: isCleanPart_def plainContents_def isWhiteSpace_def)

lemma auto_part_effect: "parsePart env st ''auto'' = st\<lparr>auto := JBool True\<rparr>"
  by (simp add: parsePart_def AUTO_PART_KEY_def)

lemma first_level_part_effect:
  "parsePart env st (''first-level '' @ intToString n)
   = (if isValidFirstOrMaxLevel env (JNum n) then st\<lparr>firstLevel := JNum n\<rparr> else st)"
proof -
  have "parsePart env st (''first-level '' @ intToString n)
        = parseFirstLevelPart env st (''first-level '' @ intToString n)"
    by (simp add: parsePart_def AUTO_PART_KEY_def FIRST_LEVEL_PART_KEY_def startsWith_def)
  also have "\<dots> = (if isValidFirstOrMaxLevel env (parseInt (intToString n))
                   then st\<lparr>firstLevel := parseInt (intToString n)\<rparr> else st)"
    unfolding parseFirstLevelPart_def key_lengths substring_def Let_def by simp
  finally show ?thesis by (simp only: parseInt_intToString)
qed

lemma max_level_part_effect:
  "parsePart env st (''max '' @ intToString n)
   = (if isValidFirstOrMaxLevel env (JNum n) then st\<lparr>maxLevel := JNum n\<rparr> else st)"
proof -
  have "parsePart env st (''max '' @ intToString n)
        = parseMaxLevelPart env st (''max '' @ intToString n)"
    by (simp add: parsePart_def AUTO_PART_KEY_def FIRST_LEVEL_PART_KEY_def
          MAX_LEVEL_PART_KEY_def startsWith_def)
  also have "\<dots> = (if isValidFirstOrMaxLevel env (parseInt (intToString n))
                   then st\<lparr>maxLevel := parseInt (intToString n)\<rparr> else st)"
    unfolding parseMaxLevelPart_def key_lengths substring_def Let_def by simp
  finally show ?thesis by (simp only: parseInt_intToString)
qed

lemma contents_part_effect:
  assumes "c \<noteq> []"
  shows "parsePart env st (''contents '' @ c)
         = (if isValidContents env c then st\<lparr>contents := c\<rparr> else st)"
proof -
  have "parsePart env st (''contents '' @ c) = parseContentsPart env st (''contents '' @ c)"
    by (simp add: parsePart_def AUTO_PART_KEY_def FIRST_LEVEL_PART_KEY_def
          MAX_LEVEL_PART_KEY_def CONTENTS_PART_KEY_def startsWith_def)
  also have "\<dots> = (if isValidContents env c then st\<lparr>contents := c\<rparr> else st)"
    unfolding parseContentsPart_def key_lengths substring_def Let_def
    using assms by simp
  finally show ?thesis .
qed

lemma decode_encode:
  assumes rt: "roundTripTypes env" and d: "decoded env r"
  shows "parseCompactString env (settingsToCompactFrontMatterValue r) = r"
proof -
  let ?D = "DEFAULT_SETTINGS env"
  from d have da: "auto r = JBool True \<or> auto r = auto ?D"
    and dfl: "isValidFirstOrMaxLevel env (firstLevel r) \<or> firstLevel r = firstLevel ?D"
    and dmx: "isValidFirstOrMaxLevel env (maxLevel r) \<or> maxLevel r = maxLevel ?D"
    and pc: "plainContents (contents r)"
    and dc: "contents r \<noteq> [] \<and> isValidContents env (contents r) \<or> contents r = contents ?D"
    and dsk: "isFlag (skipTopLevel r)"
    and ds1: "isValidLevelStyle env (styleLevel1 r) \<or> styleLevel1 r = styleLevel1 ?D"
    and ds2: "isValidLevelStyle env (styleLevelOther r) \<or> styleLevelOther r = styleLevelOther ?D"
    and dsp: "plainSeparator env (separator r) \<or> separator r = separator ?D"
    by (simp_all add: decoded_def)
  from rt have rs: "\<And>s. isValidLevelStyle env s \<Longrightarrow> plainStyle env s"
    and rl: "\<And>v. isValidFirstOrMaxLevel env v \<Longrightarrow> safeLevel v"
    and ra: "isFlag (auto ?D)" and rfl: "safeLevel (firstLevel ?D)" and rmx: "safeLevel (maxLevel ?D)"
    and rs1: "plainStyle env (styleLevel1 ?D)" and rs2: "plainStyle env (styleLevelOther ?D)"
    and rsp: "separator ?D = [] \<or> plainSeparator env (separator ?D)"
    by (simp_all add: roundTripTypes_def)
  from da ra obtain b where b: "auto r = JBool b"
    by (cases "auto r") (auto simp: isFlag_def split: jsval.splits)
  from dsk obtain b' where b': "skipTopLevel r = JBool b'"
    by (cases "skipTopLevel r") (simp_all add: isFlag_def)
  from dfl rl rfl have "safeLevel (firstLevel r)" by metis
  then obtain n1 where n1: "firstLevel r = JNum n1"
    by (cases "firstLevel r") (simp_all add: safeLevel_def)
  from dmx rl rmx have "safeLevel (maxLevel r)" by metis
  then obtain n2 where n2: "maxLevel r = JNum n2"
    by (cases "maxLevel r") (simp_all add: safeLevel_def)
  from ds1 rs rs1 have s1: "plainStyle env (styleLevel1 r)" by metis
  from ds2 rs rs2 have s2: "plainStyle env (styleLevelOther r)" by metis
  from dsp rsp have sp: "separator r = [] \<or> plainSeparator env (separator r)" by metis
  have spD: "separator r = [] \<Longrightarrow> separator ?D = []"
    using dsp by (auto simp: plainSeparator_def)
  have cD: "contents r = [] \<Longrightarrow> contents ?D = []" using dc by auto
  let ?tail = "stylePart b' (styleLevel1 r) (styleLevelOther r) (separator r)"
  let ?parts = "(if b then [''auto''] else [])
                @ [''first-level '' @ intToString n1, ''max '' @ intToString n2]
                @ (if contents r \<noteq> [] then [''contents '' @ contents r] else [])
                @ [?tail]"
  have enc: "settingsToCompactFrontMatterValue r = joinParts ?parts"
    unfolding encode_joinParts by (simp add: b b' n1 n2)
  have clean: "\<forall>p \<in> set ?parts. isCleanPart p"
    using pc stylePart_clean [OF s1 s2 sp, of b']
    by (auto simp: auto_part_clean level_part_clean [simplified]
          contents_part_clean [simplified])
  have "cleanParts (joinParts ?parts) = ?parts"
    using clean by (intro cleanParts_joinParts) simp_all
  then have run: "parseCompactString env (settingsToCompactFrontMatterValue r)
                  = foldl (parsePart env) ?D ?parts"
    by (simp only: parseCompactString_cleanParts enc)
  let ?st1 = "if b then ?D\<lparr>auto := JBool True\<rparr> else ?D"
  let ?st2 = "if isValidFirstOrMaxLevel env (JNum n1) then ?st1\<lparr>firstLevel := JNum n1\<rparr> else ?st1"
  let ?st3 = "if isValidFirstOrMaxLevel env (JNum n2) then ?st2\<lparr>maxLevel := JNum n2\<rparr> else ?st2"
  let ?st4 = "if contents r \<noteq> [] \<and> isValidContents env (contents r)
              then ?st3\<lparr>contents := contents r\<rparr> else ?st3"
  have fold: "foldl (parsePart env) ?D ?parts = parsePart env ?st4 ?tail"
    by (simp add: auto_part_effect first_level_part_effect [simplified]
          max_level_part_effect [simplified] contents_part_effect [simplified])
  note eff = stylePart_effect [OF s1 s2 sp, of ?st4 b']
  have f_auto: "auto (parsePart env ?st4 ?tail) = auto r"
    unfolding eff using da ra by (auto simp: b isFlag_def)
  have f_fl: "firstLevel (parsePart env ?st4 ?tail) = firstLevel r"
    unfolding eff using dfl by (auto simp: n1)
  have f_mx: "maxLevel (parsePart env ?st4 ?tail) = maxLevel r"
    unfolding eff using dmx by (auto simp: n2)
  have f_c: "contents (parsePart env ?st4 ?tail) = contents r"
    unfolding eff using dc by auto
  have f_sk: "skipTopLevel (parsePart env ?st4 ?tail) = skipTopLevel r"
    unfolding eff by (simp add: b')
  have f_sp: "separator (parsePart env ?st4 ?tail) = separator r"
    unfolding eff using spD by auto
  have f_s1: "styleLevel1 (parsePart env ?st4 ?tail) = styleLevel1 r"
    unfolding eff using ds1 by auto
  have f_s2: "styleLevelOther (parsePart env ?st4 ?tail) = styleLevelOther r"
    unfolding eff using ds2 by auto
  have "parsePart env ?st4 ?tail = r"
    by (rule NumberHeadingsPluginSettings.equality;
        (simp only: f_auto f_fl f_mx f_c f_sk f_sp f_s1 f_s2)?; simp)
  with run fold show ?thesis by simp
qed

lemma encode_not_Nil: "settingsToCompactFrontMatterValue r \<noteq> []"
  by (simp add: settingsToCompactFrontMatterValue_def Let_def)

text \<open>
  C4. Let the validity predicates and the defaults fit the compact format
  (\<open>roundTripTypes\<close>). Then for every compact string, decoding the text that the encoder
  writes for the decoded record gives that record again; and when the decoder returns
  the record \<open>r\<close> for a metadata block, it returns \<open>r\<close> again for any block whose
  \<open>number headings\<close> entry is the encoder's text for \<open>r\<close>.
\<close>

theorem decode_encode_decode:
  assumes "roundTripTypes env"
  shows "parseCompactString env
           (settingsToCompactFrontMatterValue (parseCompactString env entryString))
         = parseCompactString env entryString
       \<and> (parseCompactFrontMatterSettings env fm = Some r
            \<and> parseFrontMatterEntry fm' ''number headings''
                = JStr (settingsToCompactFrontMatterValue r)
          \<longrightarrow> parseCompactFrontMatterSettings env fm' = Some r)"
proof (intro conjI impI)
  show "parseCompactString env
           (settingsToCompactFrontMatterValue (parseCompactString env entryString))
         = parseCompactString env entryString"
    using assms by (intro decode_encode decoded_parseCompactString)
next
  assume a: "parseCompactFrontMatterSettings env fm = Some r
            \<and> parseFrontMatterEntry fm' ''number headings''
                = JStr (settingsToCompactFrontMatterValue r)"
  then have "r = parseCompactString env (toString (parseFrontMatterEntry fm ''number headings''))"
    by (auto simp: parseCompactFrontMatterSettings_def Let_def split: if_splits)
  then have "decoded env r" using assms by (simp add: decoded_parseCompactString)
  then have "parseCompactString env (settingsToCompactFrontMatterValue r) = r"
    using assms by (intro decode_encode)
  then show "parseCompactFrontMatterSettings env fm' = Some r"
    using a by (simp add: parseCompactFrontMatterSettings_def encode_not_Nil)
qed

lemma sample_plainStyle:
  "isValidLevelStyle sampleTypes s \<Longrightarrow> plainStyle sampleTypes s"
  by (auto simp: sampleTypes_def plainStyle_def isWhiteSpace_def startsWith_def
        FIRST_LEVEL_PART_KEY_def MAX_LEVEL_PART_KEY_def CONTENTS_PART_KEY_def)

lemma sample_safeLevel: "isValidFirstOrMaxLevel sampleTypes v \<Longrightarrow> safeLevel v"
  by (cases v) (simp_all add: sampleTypes_def safeLevel_def)

lemma sample_roundTripTypes: "roundTripTypes sampleTypes"
proof -
  have d: "DEFAULT_SETTINGS sampleTypes = sampleDefaults" by (simp add: sampleTypes_def)
  have one: "isValidLevelStyle sampleTypes ''1''" by (simp add: sampleTypes_def)
  show ?thesis
    unfolding roundTripTypes_def d
    using sample_plainStyle sample_safeLevel sample_plainStyle [OF one]
    by (simp add: sampleDefaults_def isFlag_def safeLevel_def plainContents_def)
qed

theorem decode_encode_decode_witness:
  "roundTripTypes sampleTypes
   \<and> parseCompactFrontMatterSettings sampleTypes firstFrontMatter = Some firstDecoded
   \<and> settingsToCompactFrontMatterValue firstDecoded
       = ''auto, first-level 2, max 6, contents toc, _.A.a:''
   \<and> parseFrontMatterEntry secondFrontMatter ''number headings''
       = JStr (settingsToCompactFrontMatterValue firstDecoded)
   \<and> parseCompactFrontMatterSettings sampleTypes secondFrontMatter = Some firstDecoded"
proof -
  have s: "split CHR '','' ''auto,first-level 0x2 ,contents toc, _.A.a:''
           = [''auto'', ''first-level 0x2 '', ''contents toc'', '' _.A.a:'']"
    by simp
  have t: "trim ''auto'' = ''auto''" "trim ''first-level 0x2 '' = ''first-level 0x2''"
    "trim ''contents toc'' = ''contents toc''" "trim '' _.A.a:'' = ''_.A.a:''"
    by (simp_all add: trim_def isWhiteSpace_def)
  have p: "parseInt ''0x2'' = JNum 2"
    by (simp add: string_defs startsWith_def)
  have "parseCompactString sampleTypes ''auto,first-level 0x2 ,contents toc, _.A.a:'' = firstDecoded"
    unfolding parseCompactString_def parseParts_def s
    by (simp add: loopBody_def t part_defs p sampleTypes_def sampleDefaults_def firstDecoded_def)
  then have 1: "parseCompactFrontMatterSettings sampleTypes firstFrontMatter = Some firstDecoded"
    by (simp add: parseCompactFrontMatterSettings_def parseFrontMatterEntry_def
          firstFrontMatter_def)
  have 2: "settingsToCompactFrontMatterValue firstDecoded
           = ''auto, first-level 2, max 6, contents toc, _.A.a:''"
    by (simp add: settingsToCompactFrontMatterValue_def firstDecoded_def intToString_def
          natToString.simps digitChar_def)
  have 3: "parseFrontMatterEntry secondFrontMatter ''number headings''
           = JStr (settingsToCompactFrontMatterValue firstDecoded)"
    unfolding 2 by (simp add: parseFrontMatterEntry_def secondFrontMatter_def)
  from decode_encode_decode [OF sample_roundTripTypes,
      of "''''" firstFrontMatter firstDecoded secondFrontMatter] 1 3
  have "parseCompactFrontMatterSettings sampleTypes secondFrontMatter = Some firstDecoded"
    by blast
  with sample_roundTripTypes 1 2 3 show ?thesis by simp
qed

end
